theory Spec2Isabelle
  imports Main "HOL-Library.Word"
begin

unbundle bit_operations_syntax

section \<open>ARM conditional execution (src/arch/arm-generic/ArchProcessor.cpp)\<close>

text \<open>
  \<^verbatim>\<open>edb::reg_t\<close> holds the CPSR; only bits 28..31 are read. The condition code is the
  4-bit field of the instruction, an integer; \<^verbatim>\<open>cond & 0xe\<close> selects the base predicate
  and \<^verbatim>\<open>cond & 1\<close> inverts it.
\<close>

type_synonym reg_t = "32 word"

definition is_jcc_taken :: "reg_t \<Rightarrow> nat \<Rightarrow> bool" where
  "is_jcc_taken cpsr cond =
    (let N = (cpsr AND 0x80000000 \<noteq> 0);
         Z = (cpsr AND 0x40000000 \<noteq> 0);
         C = (cpsr AND 0x20000000 \<noteq> 0);
         V = (cpsr AND 0x10000000 \<noteq> 0);
         sel = cond AND 0xe;
         taken =
           (if sel = 0x0 then Z
            else if sel = 0x2 then C
            else if sel = 0x4 then N
            else if sel = 0x6 then V
            else if sel = 0x8 then C \<and> \<not> Z
            else if sel = 0xa then N = V
            else if sel = 0xc then \<not> Z \<and> (N = V)
            else if sel = 0xe then True
            else False)
     in if cond AND 1 \<noteq> 0 then \<not> taken else taken)"

section \<open>Signal catalog (plugins/DebuggerCore/unix/DebuggerCoreUNIX.cpp)\<close>

text \<open>
  \<^verbatim>\<open>struct Exception { qlonglong value; const char *const name; }\<close>. No arithmetic is done
  on the value, so it is an \<open>int\<close>.
\<close>

record Exception =
  exc_value :: int
  exc_name :: string

text \<open>
  The table \<^verbatim>\<open>Exceptions[]\<close> has one row per signal macro, each under \<^verbatim>\<open>#ifdef\<close> of
  that macro, in this order. The platform's \<^verbatim>\<open><csignal>\<close> decides which macros exist
  and what they expand to; it is the parameter \<open>defined\<close> (\<open>None\<close>: the macro is not
  defined).
\<close>

definition signal_macros :: "string list" where
  "signal_macros =
    [''SIGABRT'', ''SIGALRM'', ''SIGVTALRM'', ''SIGPROF'', ''SIGBUS'', ''SIGCHLD'',
     ''SIGCONT'', ''SIGFPE'', ''SIGHUP'', ''SIGILL'', ''SIGINT'', ''SIGKILL'', ''SIGPIPE'',
     ''SIGQUIT'', ''SIGSEGV'', ''SIGSTOP'', ''SIGTERM'', ''SIGTSTP'', ''SIGTTIN'',
     ''SIGTTOU'', ''SIGUSR1'', ''SIGUSR2'', ''SIGPOLL'', ''SIGSYS'', ''SIGTRAP'', ''SIGURG'',
     ''SIGXCPU'', ''SIGXFSZ'', ''SIGRTMIN'', ''SIGRTMAX'', ''SIGIO'', ''SIGSTKFLT'',
     ''SIGWINCH'']"

definition Exceptions :: "(string \<Rightarrow> int option) \<Rightarrow> Exception list" where
  "Exceptions defined =
    List.map_filter
      (\<lambda>m. case defined m of
             None \<Rightarrow> None
           | Some v \<Rightarrow> Some \<lparr>exc_value = v, exc_name = m\<rparr>)
      signal_macros"

text \<open>The signal numbers of Linux on x86 (glibc), where SIGPOLL and SIGIO are both 29.\<close>

definition linux_signals :: "string \<Rightarrow> int option" where
  "linux_signals =
    map_of
      [(''SIGABRT'', 6), (''SIGALRM'', 14), (''SIGVTALRM'', 26), (''SIGPROF'', 27),
       (''SIGBUS'', 7), (''SIGCHLD'', 17), (''SIGCONT'', 18), (''SIGFPE'', 8),
       (''SIGHUP'', 1), (''SIGILL'', 4), (''SIGINT'', 2), (''SIGKILL'', 9),
       (''SIGPIPE'', 13), (''SIGQUIT'', 3), (''SIGSEGV'', 11), (''SIGSTOP'', 19),
       (''SIGTERM'', 15), (''SIGTSTP'', 20), (''SIGTTIN'', 21), (''SIGTTOU'', 22),
       (''SIGUSR1'', 10), (''SIGUSR2'', 12), (''SIGPOLL'', 29), (''SIGSYS'', 31),
       (''SIGTRAP'', 5), (''SIGURG'', 23), (''SIGXCPU'', 24), (''SIGXFSZ'', 25),
       (''SIGRTMIN'', 34), (''SIGRTMAX'', 64), (''SIGIO'', 29), (''SIGSTKFLT'', 16),
       (''SIGWINCH'', 28)]"

text \<open>
  \<^verbatim>\<open>exceptionName\<close> and \<^verbatim>\<open>exceptionValue\<close> scan the table front to back and return at
  the first match; \<^verbatim>\<open>QString()\<close> is the empty string.
\<close>

fun exceptionName_in :: "Exception list \<Rightarrow> int \<Rightarrow> string" where
  "exceptionName_in [] v = []"
| "exceptionName_in (e # es) v = (if v = exc_value e then exc_name e else exceptionName_in es v)"

fun exceptionValue_in :: "Exception list \<Rightarrow> string \<Rightarrow> int" where
  "exceptionValue_in [] n = - 1"
| "exceptionValue_in (e # es) n = (if n = exc_name e then exc_value e else exceptionValue_in es n)"

definition exceptionName :: "(string \<Rightarrow> int option) \<Rightarrow> int \<Rightarrow> string" where
  "exceptionName defined v = exceptionName_in (Exceptions defined) v"

definition exceptionValue :: "(string \<Rightarrow> int option) \<Rightarrow> string \<Rightarrow> int" where
  "exceptionValue defined n = exceptionValue_in (Exceptions defined) n"

section \<open>Interrupted system calls (plugins/DebuggerCore/unix/DebuggerCoreUNIX.cpp)\<close>

text \<open>
  The wrappers \<^verbatim>\<open>native::read\<close>, \<^verbatim>\<open>native::write\<close>, \<^verbatim>\<open>native::select\<close> and
  \<^verbatim>\<open>native::waitpid\<close> call the C library and read \<^verbatim>\<open>errno\<close>. The world they run in is a
  state: \<^verbatim>\<open>errno\<close> and everything else a system call can read or change (the kernel, the
  buffers the pointers refer to). The C library is a parameter: a function from the call
  and the world to the returned value and the world after the call. Pointers are
  addresses; \<^verbatim>\<open>ssize_t\<close>, \<^verbatim>\<open>pid_t\<close> and \<^verbatim>\<open>int\<close> are \<open>int\<close>, no arithmetic is done on
  them.
\<close>

record 'k world =
  errno :: int
  kernel :: 'k

datatype syscall =
    SYS_read int nat nat
  | SYS_write int nat nat
  | SYS_select int nat nat nat nat
  | SYS_waitpid int nat int

type_synonym 'k libc = "syscall \<Rightarrow> 'k world \<Rightarrow> int \<times> 'k world"

text \<open>\<^verbatim>\<open>EINTR\<close> of \<^verbatim>\<open><cerrno>\<close>; 4 on Linux. Nothing below depends on the number.\<close>

definition EINTR :: int where
  "EINTR = 4"

text \<open>
  The four wrappers have the same body,
  \<^verbatim>\<open>do { ret = ::call(args); } while(ret == -1 && errno == EINTR); return ret;\<close>
  with the arguments passed unchanged to every attempt. The loop has no bound: it is a
  partial function, \<open>None\<close> when it never returns.
\<close>

partial_function (option) do_while_EINTR ::
    "('k world \<Rightarrow> int \<times> 'k world) \<Rightarrow> 'k world \<Rightarrow> (int \<times> 'k world) option" where
  "do_while_EINTR call w =
    (case call w of
       (ret, w') \<Rightarrow>
         if ret = - 1 \<and> errno w' = EINTR then do_while_EINTR call w' else Some (ret, w'))"

definition native_read :: "'k libc \<Rightarrow> int \<Rightarrow> nat \<Rightarrow> nat \<Rightarrow> 'k world \<Rightarrow> (int \<times> 'k world) option" where
  "native_read libc fd buf count = do_while_EINTR (libc (SYS_read fd buf count))"

definition native_write :: "'k libc \<Rightarrow> int \<Rightarrow> nat \<Rightarrow> nat \<Rightarrow> 'k world \<Rightarrow> (int \<times> 'k world) option" where
  "native_write libc fd buf count = do_while_EINTR (libc (SYS_write fd buf count))"

definition native_select ::
    "'k libc \<Rightarrow> int \<Rightarrow> nat \<Rightarrow> nat \<Rightarrow> nat \<Rightarrow> nat \<Rightarrow> 'k world \<Rightarrow> (int \<times> 'k world) option" where
  "native_select libc nfds readfds writefds exceptfds timeout =
    do_while_EINTR (libc (SYS_select nfds readfds writefds exceptfds timeout))"

definition native_waitpid :: "'k libc \<Rightarrow> int \<Rightarrow> nat \<Rightarrow> int \<Rightarrow> 'k world \<Rightarrow> (int \<times> 'k world) option" where
  "native_waitpid libc pid status options = do_while_EINTR (libc (SYS_waitpid pid status options))"

text \<open>
  What the caller could observe: a result is an interrupted one when the call returned
  \<open>-1\<close> and left \<^verbatim>\<open>errno\<close> at \<^verbatim>\<open>EINTR\<close>. \<open>world_after call w j\<close> is the world after \<open>j\<close>
  attempts, \<open>attempt call w j\<close> the result of attempt number \<open>j\<close> (from 0).
\<close>

definition interrupted :: "int \<times> 'k world \<Rightarrow> bool" where
  "interrupted r = (fst r = - 1 \<and> errno (snd r) = EINTR)"

fun world_after :: "('k world \<Rightarrow> int \<times> 'k world) \<Rightarrow> 'k world \<Rightarrow> nat \<Rightarrow> 'k world" where
  "world_after call w 0 = w"
| "world_after call w (Suc j) = world_after call (snd (call w)) j"

definition attempt :: "('k world \<Rightarrow> int \<times> 'k world) \<Rightarrow> 'k world \<Rightarrow> nat \<Rightarrow> int \<times> 'k world" where
  "attempt call w j = call (world_after call w j)"

definition first_uninterrupted :: "('k world \<Rightarrow> int \<times> 'k world) \<Rightarrow> 'k world \<Rightarrow> nat \<Rightarrow> bool" where
  "first_uninterrupted call w k =
    ((\<forall>j<k. interrupted (attempt call w j)) \<and> \<not> interrupted (attempt call w k))"

text \<open>
  A C library for the examples: the kernel state is the number of signals still to
  arrive; while one is pending every call fails with \<^verbatim>\<open>EINTR\<close>, afterwards every call
  returns 1.
\<close>

definition signals_pending :: "nat libc" where
  "signals_pending sc w =
    (if kernel w = 0 then (1, w)
     else (- 1, w\<lparr>errno := EINTR, kernel := kernel w - 1\<rparr>))"

section \<open>Backward instruction search (src/widgets/QDisassemblyView.cpp)\<close>

text \<open>
  \<^verbatim>\<open>edb::Instruction\<close> is declared outside the files at hand. The code below reads from
  an instruction whether it is valid (\<^verbatim>\<open>operator bool\<close>), its \<^verbatim>\<open>byte_size()\<close> and its
  \<^verbatim>\<open>rva()\<close>; the architecture processors extend the record with what they read.
  \<^verbatim>\<open>edb::address_t\<close> is a 64-bit value.
\<close>

type_synonym address_t = "64 word"

record Instruction =
  inst_valid :: bool
  byte_size :: nat
  rva :: address_t

text \<open>
  The decoder is the disassembly library behind the constructor
  \<^verbatim>\<open>edb::Instruction(first, last, rva)\<close>: a function from the bytes of the window
  \<open>[first, last)\<close> and the address to an instruction. It is a parameter.
  \<open>Instruction_range dec buf lo hi\<close> is \<^verbatim>\<open>edb::Instruction(buf+lo, buf+hi, 0)\<close>.
  The source never builds a window with \<open>lo > hi\<close> for a decoder that stays inside
  its window; the model gives the decoder no bytes there.
\<close>

type_synonym decoder = "8 word list \<Rightarrow> address_t \<Rightarrow> Instruction"

definition Instruction_range :: "decoder \<Rightarrow> 8 word list \<Rightarrow> nat \<Rightarrow> nat \<Rightarrow> Instruction" where
  "Instruction_range dec buf lo hi = dec (take (hi - lo) (drop lo buf)) 0"

text \<open>
  Each of the three stages of \<^verbatim>\<open>length_disasm_back\<close> runs
  \<^verbatim>\<open>for(size_t offs = curInstOffset-1; offs != size_t(-1); --offs)\<close>:
  \<open>offs\<close> takes the values \<open>curInstOffset - 1\<close> down to \<open>0\<close>, and no value when
  \<open>curInstOffset = 0\<close> (the start \<open>0 - 1\<close> wraps to \<^verbatim>\<open>size_t(-1)\<close>). The recursion is on
  \<open>offs + 1\<close>: the argument \<open>Suc offs\<close> is the iteration at \<open>offs\<close>, the argument \<open>0\<close> is
  \<^verbatim>\<open>offs == size_t(-1)\<close>. Offsets and sizes are far below \<open>2 ^ 64\<close> (the caller's buffer
  holds two instructions), so the other sums do not wrap and are sums of \<open>nat\<close>.
\<close>

fun stage1 :: "decoder \<Rightarrow> 8 word list \<Rightarrow> nat \<Rightarrow> nat \<Rightarrow> nat \<Rightarrow> nat" where
  "stage1 dec buf curInstOffset 0 finalSize = finalSize"
| "stage1 dec buf curInstOffset (Suc offs) finalSize =
    (let inst = Instruction_range dec buf offs curInstOffset
     in stage1 dec buf curInstOffset offs
          (if inst_valid inst \<and> offs + byte_size inst = curInstOffset
           then byte_size inst else finalSize))"

fun stage2 :: "decoder \<Rightarrow> 8 word list \<Rightarrow> nat \<Rightarrow> nat \<Rightarrow> Instruction \<Rightarrow> nat \<Rightarrow> nat \<Rightarrow> nat" where
  "stage2 dec buf bufSize curInstOffset originalCurrentInst 0 finalSize = finalSize"
| "stage2 dec buf bufSize curInstOffset originalCurrentInst (Suc offs) finalSize =
    (let instPrev = Instruction_range dec buf offs curInstOffset
     in if \<not> inst_valid instPrev
        then stage2 dec buf bufSize curInstOffset originalCurrentInst offs finalSize
        else
          let instNewCur = Instruction_range dec buf (offs + byte_size instPrev) bufSize
          in stage2 dec buf bufSize curInstOffset originalCurrentInst offs
               (if inst_valid instNewCur
                   \<and> offs + byte_size instPrev + byte_size instNewCur
                       = curInstOffset + byte_size originalCurrentInst
                then curInstOffset - offs else finalSize))"

fun stage3 :: "decoder \<Rightarrow> 8 word list \<Rightarrow> nat \<Rightarrow> nat \<Rightarrow> nat \<Rightarrow> nat" where
  "stage3 dec buf bufSize curInstOffset 0 = 0"
| "stage3 dec buf bufSize curInstOffset (Suc offs) =
    (let inst = Instruction_range dec buf offs bufSize
     in if \<not> inst_valid inst then curInstOffset - offs
        else stage3 dec buf bufSize curInstOffset offs)"

definition length_disasm_back :: "decoder \<Rightarrow> 8 word list \<Rightarrow> nat \<Rightarrow> nat \<Rightarrow> nat" where
  "length_disasm_back dec buf bufSize curInstOffset =
    (let finalSize = stage1 dec buf curInstOffset curInstOffset 0
     in if finalSize \<noteq> 0 then finalSize
        else
          let originalCurrentInst = Instruction_range dec buf curInstOffset bufSize;
              finalSize = stage2 dec buf bufSize curInstOffset originalCurrentInst
                            curInstOffset finalSize
          in if finalSize \<noteq> 0 then finalSize
             else stage3 dec buf bufSize curInstOffset curInstOffset)"

text \<open>
  The candidates of stage 1: a start offset before the current instruction at which the
  decoder, given the bytes up to the current instruction, yields a valid instruction
  that ends where the current one starts.
\<close>

definition ends_here :: "decoder \<Rightarrow> 8 word list \<Rightarrow> nat \<Rightarrow> nat \<Rightarrow> bool" where
  "ends_here dec buf curInstOffset offs =
    (offs < curInstOffset
     \<and> inst_valid (Instruction_range dec buf offs curInstOffset)
     \<and> offs + byte_size (Instruction_range dec buf offs curInstOffset) = curInstOffset)"

text \<open>
  A small decoder for the examples, with four x86 encodings: \<open>90\<close> (nop) and \<open>C3\<close> (ret)
  of one byte, \<open>66 90\<close> of two bytes, \<open>B8\<close> with its four immediate bytes. Anything else
  is an invalid instruction of one byte.
\<close>

definition toy_decoder :: decoder where
  "toy_decoder bs a =
    (if take 1 bs = [0x90] \<or> take 1 bs = [0xC3]
       then \<lparr>inst_valid = True, byte_size = 1, rva = a\<rparr>
     else if take 2 bs = [0x66, 0x90]
       then \<lparr>inst_valid = True, byte_size = 2, rva = a\<rparr>
     else if take 1 bs = [0xB8] \<and> 5 \<le> length bs
       then \<lparr>inst_valid = True, byte_size = 5, rva = a\<rparr>
     else \<lparr>inst_valid = False, byte_size = 1, rva = a\<rparr>)"

section \<open>Registers and register state (shared by both architecture processors)\<close>

text \<open>
  \<^verbatim>\<open>Register\<close> and \<^verbatim>\<open>State\<close> are declared outside the files at hand. A register is valid
  or not (\<^verbatim>\<open>operator bool\<close>) and carries a value that \<^verbatim>\<open>valueAsAddress()\<close> and
  \<^verbatim>\<open>valueAsInteger()\<close> read, whether it is valid or not. \<^verbatim>\<open>Register()\<close> is the invalid
  register. A state is read by name (\<^verbatim>\<open>state[name]\<close>), by general-purpose index
  (\<^verbatim>\<open>gp_register(i)\<close>) and for the flags (\<^verbatim>\<open>flags_register()\<close>).
\<close>

record Register =
  reg_valid :: bool
  reg_value :: address_t

definition valueAsAddress :: "Register \<Rightarrow> address_t" where
  "valueAsAddress r = reg_value r"

definition valueAsInteger :: "Register \<Rightarrow> address_t" where
  "valueAsInteger r = reg_value r"

definition invalid_Register :: Register where
  "invalid_Register = \<lparr>reg_valid = False, reg_value = 0\<rparr>"

record State =
  by_name :: "string \<Rightarrow> Register"
  gp_register :: "int \<Rightarrow> Register"
  flags_register :: Register

text \<open>A state in which no register can be resolved (an empty \<^verbatim>\<open>State\<close>).\<close>

definition unresolved :: "'a \<Rightarrow> Register" where
  "unresolved x = invalid_Register"

definition empty_State :: State where
  "empty_State = \<lparr>by_name = unresolved, gp_register = unresolved, flags_register = invalid_Register\<rparr>"

section \<open>x86 architecture processor (src/arch/x86-generic/ArchProcessor.cpp)\<close>

text \<open>
  The operand and instruction types come from the disassembly library. Of its register
  and operation enumerations the model lists the members the code names and a few
  more. \<^verbatim>\<open>prefix()\<close> is a bit mask of flags, modelled as the set of flags that are set;
  \<^verbatim>\<open>op.owner()->size()\<close> and \<^verbatim>\<open>op.owner()->prefix()\<close> are fields of the operand.
\<close>

datatype x86_reg =
    X86_REG_INVALID | X86_REG_EAX | X86_REG_EBX | X86_REG_ECX | X86_REG_EDX
  | X86_REG_ESI | X86_REG_EDI | X86_REG_EBP | X86_REG_ESP
  | X86_REG_RAX | X86_REG_RBX | X86_REG_RCX | X86_REG_RDX | X86_REG_RIP
  | X86_REG_FS | X86_REG_GS

datatype x86_insn =
    X86_INS_NOP | X86_INS_INT3 | X86_INS_LEA | X86_INS_MOV
  | X86_INS_ADD | X86_INS_CALL | X86_INS_JMP | X86_INS_RET

datatype Prefix =
    PREFIX_LOCK | PREFIX_REPNE | PREFIX_REP
  | PREFIX_CS | PREFIX_SS | PREFIX_DS | PREFIX_ES | PREFIX_FS | PREFIX_GS

datatype operand_type =
    TYPE_INVALID | TYPE_REGISTER | TYPE_IMMEDIATE | TYPE_REL | TYPE_EXPRESSION | TYPE_ABSOLUTE

record expression_t =
  base :: x86_reg
  index :: x86_reg
  scale :: int
  displacement :: int

record x86_Operand =
  op_valid :: bool
  general_type :: operand_type
  reg :: x86_reg
  expression :: expression_t
  absolute_offset :: address_t
  relative_target :: address_t
  owner_size :: nat
  owner_prefix :: "Prefix set"

record x86_Instruction = Instruction +
  operation :: x86_insn
  operands :: "nat \<Rightarrow> x86_Operand"
  bytes :: "8 word list"

text \<open>
  \<^verbatim>\<open>edb::v1::formatter()\<close> turns a register operand and a register into the name under
  which the state is asked for it. It is a parameter.
\<close>

record Formatter =
  to_string :: "x86_Operand \<Rightarrow> string"
  register_name :: "x86_reg \<Rightarrow> string"

text \<open>
  \<^verbatim>\<open>get_effective_address(op, state, ok)\<close> returns the address and the flag \<open>ok\<close>. The
  flag is cleared on entry and set before the final return; the four early
  \<^verbatim>\<open>return 0\<close> leave it cleared. Address arithmetic is modulo \<open>2 ^ 64\<close>.
\<close>

definition get_effective_address :: "Formatter \<Rightarrow> x86_Operand \<Rightarrow> State \<Rightarrow> address_t \<times> bool" where
  "get_effective_address fmt op state =
    (if op_valid op then
       (case general_type op of
          TYPE_REGISTER \<Rightarrow> (valueAsAddress (by_name state (to_string fmt op)), True)
        | TYPE_EXPRESSION \<Rightarrow>
            (let baseR = by_name state (register_name fmt (base (expression op)));
                 indexR = by_name state (register_name fmt (index (expression op)));
                 base0 = (if reg_valid baseR then valueAsAddress baseR else 0);
                 index0 = (if reg_valid indexR then valueAsAddress indexR else 0);
                 base1 = (if base (expression op) = X86_REG_RIP
                          then base0 + of_nat (owner_size op) else base0);
                 ret = base1 + index0 * word_of_int (scale (expression op))
                         + word_of_int (displacement (expression op));
                 gsBase = by_name state ''gs_base'';
                 fsBase = by_name state ''fs_base''
             in if PREFIX_GS \<in> owner_prefix op \<and> \<not> reg_valid gsBase then (0, False)
                else
                  let ret = (if PREFIX_GS \<in> owner_prefix op
                             then ret + valueAsAddress gsBase else ret)
                  in if PREFIX_FS \<in> owner_prefix op \<and> \<not> reg_valid fsBase then (0, False)
                     else if PREFIX_FS \<in> owner_prefix op
                       then (ret + valueAsAddress fsBase, True)
                     else (ret, True))
        | TYPE_ABSOLUTE \<Rightarrow>
            (let ret = absolute_offset op;
                 gsBase = by_name state ''gs_base'';
                 fsBase = by_name state ''fs_base''
             in if PREFIX_GS \<in> owner_prefix op \<and> \<not> reg_valid gsBase then (0, False)
                else
                  let ret = (if PREFIX_GS \<in> owner_prefix op
                             then ret + valueAsAddress gsBase else ret)
                  in if PREFIX_FS \<in> owner_prefix op \<and> \<not> reg_valid fsBase then (0, False)
                     else if PREFIX_FS \<in> owner_prefix op
                       then (ret + valueAsAddress fsBase, True)
                     else (ret, True))
        | TYPE_IMMEDIATE \<Rightarrow> (0, True)
        | TYPE_REL \<Rightarrow> (relative_target op, True)
        | TYPE_INVALID \<Rightarrow> (0, True))
     else (0, True))"

text \<open>
  \<^verbatim>\<open>ArchProcessor::is_filling\<close>. The configuration switch \<^verbatim>\<open>zeros_are_filling\<close> is the
  first argument. \<^verbatim>\<open>inst.size()\<close> is the byte size; the byte comparison with
  \<^verbatim>\<open>"\x00\x00"\<close> is over the first \<^verbatim>\<open>inst.size()\<close> bytes of the instruction.
\<close>

definition is_filling :: "bool \<Rightarrow> x86_Instruction \<Rightarrow> bool" where
  "is_filling zeros_are_filling inst =
    (if inst_valid inst then
       (let op0 = operands inst 0;
            op1 = operands inst 1;
            ret =
              (case operation inst of
                 X86_INS_NOP \<Rightarrow> True
               | X86_INS_INT3 \<Rightarrow> True
               | X86_INS_LEA \<Rightarrow>
                   (if op_valid op0 \<and> op_valid op1
                       \<and> general_type op0 = TYPE_REGISTER \<and> general_type op1 = TYPE_EXPRESSION
                       \<and> scale (expression op1) = 1 \<and> displacement (expression op1) = 0
                    then
                      (if base (expression op1) = X86_REG_INVALID
                         then reg op0 = index (expression op1)
                       else if index (expression op1) = X86_REG_INVALID
                         then reg op0 = base (expression op1)
                       else False)
                    else False)
               | X86_INS_MOV \<Rightarrow>
                   (if op_valid op0 \<and> op_valid op1
                       \<and> general_type op0 = TYPE_REGISTER \<and> general_type op1 = TYPE_REGISTER
                    then reg op0 = reg op1
                    else False)
               | _ \<Rightarrow> False)
        in if \<not> ret \<and> zeros_are_filling
           then take (byte_size inst) (bytes inst) = [0, 0]
           else ret)
     else (byte_size inst = 1 \<and> take 1 (bytes inst) = [0]))"

text \<open>
  Inputs for the examples: the register names of the disassembly library, operands built
  the way the decoder builds them, and the instructions \<^verbatim>\<open>nop\<close>, \<^verbatim>\<open>mov eax, eax\<close> and
  \<^verbatim>\<open>lea eax, [eax]\<close>.
\<close>

definition capstone_register_name :: "x86_reg \<Rightarrow> string" where
  "capstone_register_name r =
    (case r of
       X86_REG_INVALID \<Rightarrow> [] | X86_REG_EAX \<Rightarrow> ''eax'' | X86_REG_EBX \<Rightarrow> ''ebx''
     | X86_REG_ECX \<Rightarrow> ''ecx'' | X86_REG_EDX \<Rightarrow> ''edx'' | X86_REG_ESI \<Rightarrow> ''esi''
     | X86_REG_EDI \<Rightarrow> ''edi'' | X86_REG_EBP \<Rightarrow> ''ebp'' | X86_REG_ESP \<Rightarrow> ''esp''
     | X86_REG_RAX \<Rightarrow> ''rax'' | X86_REG_RBX \<Rightarrow> ''rbx'' | X86_REG_RCX \<Rightarrow> ''rcx''
     | X86_REG_RDX \<Rightarrow> ''rdx'' | X86_REG_RIP \<Rightarrow> ''rip'' | X86_REG_FS \<Rightarrow> ''fs''
     | X86_REG_GS \<Rightarrow> ''gs'')"

definition operand_register_name :: "x86_Operand \<Rightarrow> string" where
  "operand_register_name op = capstone_register_name (reg op)"

definition example_formatter :: Formatter where
  "example_formatter =
    \<lparr>to_string = operand_register_name, register_name = capstone_register_name\<rparr>"

definition invalid_operand :: x86_Operand where
  "invalid_operand =
    \<lparr>op_valid = False, general_type = TYPE_INVALID, reg = X86_REG_INVALID,
     expression = \<lparr>base = X86_REG_INVALID, index = X86_REG_INVALID, scale = 1, displacement = 0\<rparr>,
     absolute_offset = 0, relative_target = 0, owner_size = 0, owner_prefix = {}\<rparr>"

definition register_operand :: "x86_reg \<Rightarrow> nat \<Rightarrow> x86_Operand" where
  "register_operand r sz =
    invalid_operand\<lparr>op_valid := True, general_type := TYPE_REGISTER, reg := r, owner_size := sz\<rparr>"

definition memory_operand :: "x86_reg \<Rightarrow> x86_reg \<Rightarrow> int \<Rightarrow> int \<Rightarrow> nat \<Rightarrow> x86_Operand" where
  "memory_operand b i s d sz =
    invalid_operand\<lparr>op_valid := True, general_type := TYPE_EXPRESSION,
      expression := \<lparr>base = b, index = i, scale = s, displacement = d\<rparr>, owner_size := sz\<rparr>"

fun no_operands :: "nat \<Rightarrow> x86_Operand" where
  "no_operands i = invalid_operand"

fun mov_eax_eax_operands :: "nat \<Rightarrow> x86_Operand" where
  "mov_eax_eax_operands i = (if i < 2 then register_operand X86_REG_EAX 2 else invalid_operand)"

fun lea_eax_eax_operands :: "nat \<Rightarrow> x86_Operand" where
  "lea_eax_eax_operands i =
    (if i = 0 then register_operand X86_REG_EAX 2
     else if i = 1 then memory_operand X86_REG_EAX X86_REG_INVALID 1 0 2
     else invalid_operand)"

definition nop_inst :: x86_Instruction where
  "nop_inst =
    \<lparr>inst_valid = True, byte_size = 1, rva = 0,
     operation = X86_INS_NOP, operands = no_operands, bytes = [0x90]\<rparr>"

definition mov_eax_eax :: x86_Instruction where
  "mov_eax_eax =
    \<lparr>inst_valid = True, byte_size = 2, rva = 0,
     operation = X86_INS_MOV, operands = mov_eax_eax_operands, bytes = [0x89, 0xC0]\<rparr>"

definition lea_eax_eax :: x86_Instruction where
  "lea_eax_eax =
    \<lparr>inst_valid = True, byte_size = 2, rva = 0,
     operation = X86_INS_LEA, operands = lea_eax_eax_operands, bytes = [0x8D, 0x00]\<rparr>"

text \<open>A state that resolves \<^verbatim>\<open>rip\<close> to \<open>0x1000\<close> and nothing else.\<close>

fun rip_only :: "string \<Rightarrow> Register" where
  "rip_only n =
    (if n = ''rip'' then \<lparr>reg_valid = True, reg_value = 0x1000\<rparr> else invalid_Register)"

definition state_rip_0x1000 :: State where
  "state_rip_0x1000 =
    \<lparr>by_name = rip_only, gp_register = unresolved, flags_register = invalid_Register\<rparr>"

section \<open>ARM architecture processor (src/arch/arm-generic/ArchProcessor.cpp)\<close>

text \<open>
  Of the disassembly library's ARM register enumeration the model lists the sixteen
  general-purpose registers and a few others. \<^verbatim>\<open>IDebugger::CPUMode\<close> is declared outside
  the files at hand; the code names \<^verbatim>\<open>ARM32\<close> and \<^verbatim>\<open>Thumb\<close> and treats all other modes
  alike.
\<close>

datatype arm_reg =
    ARM_REG_INVALID
  | ARM_REG_R0 | ARM_REG_R1 | ARM_REG_R2 | ARM_REG_R3 | ARM_REG_R4 | ARM_REG_R5
  | ARM_REG_R6 | ARM_REG_R7 | ARM_REG_R8 | ARM_REG_R9 | ARM_REG_R10 | ARM_REG_R11
  | ARM_REG_R12 | ARM_REG_R13 | ARM_REG_R14 | ARM_REG_R15
  | ARM_REG_APSR | ARM_REG_CPSR | ARM_REG_SPSR | ARM_REG_D0 | ARM_REG_S0 | ARM_REG_Q0

datatype CPUMode = Unknown | x86_16 | x86_32 | x86_64 | ARM32 | Thumb | ARM64

datatype arm_op_type =
    ARM_OP_INVALID | ARM_OP_REG | ARM_OP_IMM | ARM_OP_MEM | ARM_OP_FP
  | ARM_OP_CIMM | ARM_OP_PIMM | ARM_OP_SETEND | ARM_OP_SYSREG

datatype arm_shifter =
    ARM_SFT_INVALID | ARM_SFT_ASR | ARM_SFT_LSL | ARM_SFT_LSR | ARM_SFT_ROR | ARM_SFT_RRX
  | ARM_SFT_ASR_REG | ARM_SFT_LSL_REG | ARM_SFT_LSR_REG | ARM_SFT_ROR_REG | ARM_SFT_RRX_REG

record arm_Operand =
  aop_valid :: bool
  op_index :: nat
  op_type :: arm_op_type
  op_reg :: arm_reg
  mem_base :: arm_reg
  mem_index :: arm_reg
  mem_scale :: int
  mem_disp :: int
  shift_type :: arm_shifter
  shift_value :: "32 word"

text \<open>
  Modelled from the spec: the helpers \<^verbatim>\<open>is_register\<close> and \<^verbatim>\<open>is_expression\<close> are declared
  outside the files at hand; an operand is a register reference or a memory expression
  by its tag.
\<close>

definition is_register :: "arm_Operand \<Rightarrow> bool" where
  "is_register operand = (op_type operand = ARM_OP_REG)"

definition is_expression :: "arm_Operand \<Rightarrow> bool" where
  "is_expression operand = (op_type operand = ARM_OP_MEM)"

text \<open>
  \<^verbatim>\<open>Result<edb::address_t>\<close> is an error or an address. The errors are the messages of
  the source; \<open>AssertionFailed\<close> is not a \<^verbatim>\<open>Result\<close> but an \<^verbatim>\<open>assert\<close> of \<^verbatim>\<open>shift\<close>
  stopping the program.
\<close>

datatype ea_error =
    OperandInvalid
  | BadOperandRegister arm_reg
  | FailedToGetRegister int
  | FailedToGetCPSR
  | UnsupportedMode
  | NotImplemented nat
  | AssertionFailed

definition capstoneRegToGPRIndex :: "arm_reg \<Rightarrow> int \<times> bool" where
  "capstoneRegToGPRIndex capstoneReg =
    (case capstoneReg of
       ARM_REG_R0 \<Rightarrow> (0, True) | ARM_REG_R1 \<Rightarrow> (1, True) | ARM_REG_R2 \<Rightarrow> (2, True)
     | ARM_REG_R3 \<Rightarrow> (3, True) | ARM_REG_R4 \<Rightarrow> (4, True) | ARM_REG_R5 \<Rightarrow> (5, True)
     | ARM_REG_R6 \<Rightarrow> (6, True) | ARM_REG_R7 \<Rightarrow> (7, True) | ARM_REG_R8 \<Rightarrow> (8, True)
     | ARM_REG_R9 \<Rightarrow> (9, True) | ARM_REG_R10 \<Rightarrow> (10, True) | ARM_REG_R11 \<Rightarrow> (11, True)
     | ARM_REG_R12 \<Rightarrow> (12, True) | ARM_REG_R13 \<Rightarrow> (13, True) | ARM_REG_R14 \<Rightarrow> (14, True)
     | ARM_REG_R15 \<Rightarrow> (15, True)
     | _ \<Rightarrow> (- 1, False))"

definition adjustR15Value :: "CPUMode \<Rightarrow> Instruction \<Rightarrow> int \<Rightarrow> address_t \<Rightarrow> ea_error + address_t" where
  "adjustR15Value cpuMode insn regIndex v =
    (if regIndex = 15 then
       (case cpuMode of
          ARM32 \<Rightarrow> Inr (rva insn + 8)
        | Thumb \<Rightarrow> Inr (rva insn + 4)
        | _ \<Rightarrow> Inl UnsupportedMode)
     else Inr v)"

text \<open>
  \<^verbatim>\<open>shift\<close> on \<^verbatim>\<open>uint32_t\<close> depends on how the program was built. An \<^verbatim>\<open>assert\<close> stops
  the program when its condition fails unless \<^verbatim>\<open>NDEBUG\<close> is defined, and then it is
  not there at all. C++ gives no meaning to \<^verbatim>\<open>x>>N\<close> and \<^verbatim>\<open>x<<N\<close> for \<open>N\<close> of 32 or
  more on a 32-bit operand: the result is whatever the compiled code computes, the
  parameters \<open>shr_wide\<close> and \<open>shl_wide\<close>. The source reaches such a shift where no
  \<^verbatim>\<open>assert\<close> guards it (the logical shift right) and where \<^verbatim>\<open>NDEBUG\<close> removed the guard.
\<close>

record Build =
  NDEBUG :: bool
  shr_wide :: "32 word \<Rightarrow> nat \<Rightarrow> 32 word"
  shl_wide :: "32 word \<Rightarrow> nat \<Rightarrow> 32 word"

definition shr :: "Build \<Rightarrow> 32 word \<Rightarrow> nat \<Rightarrow> 32 word" where
  "shr bld x n = (if n < 32 then drop_bit n x else shr_wide bld x n)"

definition shl :: "Build \<Rightarrow> 32 word \<Rightarrow> nat \<Rightarrow> 32 word" where
  "shl bld x n = (if n < 32 then push_bit n x else shl_wide bld x n)"

definition assert_passes :: "Build \<Rightarrow> bool \<Rightarrow> bool" where
  "assert_passes bld c = (NDEBUG bld \<or> c)"

text \<open>\<open>None\<close> is a failed \<^verbatim>\<open>assert\<close>. Every member of \<^verbatim>\<open>arm_shifter\<close> returns in the switch.\<close>

definition shift :: "Build \<Rightarrow> 32 word \<Rightarrow> arm_shifter \<Rightarrow> 32 word \<Rightarrow> bool \<Rightarrow> 32 word option" where
  "shift bld x type shiftAmount carryFlag =
    (let highBit = (0x80000000 :: 32 word);
         N = unat shiftAmount;
         asr = (if assert_passes bld (1 \<le> N \<and> N \<le> 32)
                then Some (if N = 32 then - shr bld (x AND highBit) 31
                           else shr bld x N OR NOT (shr bld (x AND highBit) N - 1))
                else None);
         lsl = (if assert_passes bld (N \<le> 31) then Some (shl bld x N) else None);
         lsr = Some (if N = 32 then 0 else shr bld x N);
         ror = (if assert_passes bld (1 \<le> N \<and> N \<le> 31)
                then Some (shr bld x N OR shl bld x (unat ((- shiftAmount) AND 31)))
                else None);
         rrx = Some (shl bld (if carryFlag then 1 else 0) 31 OR shr bld x 1)
     in case type of
          ARM_SFT_INVALID \<Rightarrow> Some x
        | ARM_SFT_ASR \<Rightarrow> asr | ARM_SFT_ASR_REG \<Rightarrow> asr
        | ARM_SFT_LSL \<Rightarrow> lsl | ARM_SFT_LSL_REG \<Rightarrow> lsl
        | ARM_SFT_LSR \<Rightarrow> lsr | ARM_SFT_LSR_REG \<Rightarrow> lsr
        | ARM_SFT_ROR \<Rightarrow> ror | ARM_SFT_ROR_REG \<Rightarrow> ror
        | ARM_SFT_RRX \<Rightarrow> rrx | ARM_SFT_RRX_REG \<Rightarrow> rrx)"

text \<open>
  \<^verbatim>\<open>ArchProcessor::get_effective_address(insn, operand, state)\<close>. The build is the
  first argument; the CPU mode, read from the debugger core, is the second. The index register is the invalid
  \<^verbatim>\<open>Register()\<close> unless the operand's index is a general-purpose register. The scaled
  index is computed in \<^verbatim>\<open>uint32_t\<close> and added to the 64-bit address.
\<close>

definition ArchProcessor_get_effective_address ::
    "Build \<Rightarrow> CPUMode \<Rightarrow> Instruction \<Rightarrow> arm_Operand \<Rightarrow> State \<Rightarrow> ea_error + address_t" where
  "ArchProcessor_get_effective_address bld cpuMode insn operand state =
    (if \<not> aop_valid operand \<or> \<not> inst_valid insn then Inl OperandInvalid
     else if is_register operand then
       (let (regIndex, ok) = capstoneRegToGPRIndex (op_reg operand)
        in if \<not> ok then Inl (BadOperandRegister (op_reg operand))
           else
             let reg = gp_register state regIndex
             in if \<not> reg_valid reg then Inl (FailedToGetRegister regIndex)
                else adjustR15Value cpuMode insn regIndex (valueAsAddress reg))
     else if is_expression operand then
       (let (baseIndex, ok) = capstoneRegToGPRIndex (mem_base operand);
            baseR = gp_register state baseIndex
        in if \<not> ok \<or> \<not> reg_valid baseR then Inl (FailedToGetRegister baseIndex)
           else
             let (indexIndex, ok) = capstoneRegToGPRIndex (mem_index operand);
                 indexR = (if ok then gp_register state indexIndex else invalid_Register)
             in if ok \<and> \<not> reg_valid indexR then Inl (FailedToGetRegister indexIndex)
                else
                  let cpsrR = flags_register state
                  in if \<not> reg_valid cpsrR
                        \<and> (shift_type operand = ARM_SFT_RRX \<or> shift_type operand = ARM_SFT_RRX_REG)
                     then Inl FailedToGetCPSR
                     else
                       let C = (if reg_valid cpsrR
                                then valueAsInteger cpsrR AND 0x20000000 \<noteq> 0 else False)
                       in case adjustR15Value cpuMode insn baseIndex (valueAsAddress baseR) of
                            Inl e \<Rightarrow> Inl e
                          | Inr adjusted \<Rightarrow>
                              let addr = adjusted + word_of_int (mem_disp operand)
                              in if reg_valid indexR then
                                   (case shift bld (ucast (valueAsAddress indexR)) (shift_type operand)
                                           (shift_value operand) C of
                                      None \<Rightarrow> Inl AssertionFailed
                                    | Some s \<Rightarrow>
                                        Inr (addr + ucast (word_of_int (mem_scale operand) * s)))
                                 else Inr addr)
     else Inl (NotImplemented (op_index operand + 1)))"

text \<open>
  Inputs for the examples: a state that resolves every general-purpose register (to 0)
  and the flags, and the operand \<^verbatim>\<open>[pc]\<close> of an instruction at \<open>0x2000\<close>.
\<close>

fun resolved_zero :: "int \<Rightarrow> Register" where
  "resolved_zero i = \<lparr>reg_valid = True, reg_value = 0\<rparr>"

definition state_all_gprs :: State where
  "state_all_gprs =
    \<lparr>by_name = unresolved, gp_register = resolved_zero,
     flags_register = \<lparr>reg_valid = True, reg_value = 0\<rparr>\<rparr>"

definition insn_at_0x2000 :: Instruction where
  "insn_at_0x2000 = \<lparr>inst_valid = True, byte_size = 4, rva = 0x2000\<rparr>"

definition arm_register_operand :: "arm_reg \<Rightarrow> arm_Operand" where
  "arm_register_operand r =
    \<lparr>aop_valid = True, op_index = 1, op_type = ARM_OP_REG, op_reg = r,
     mem_base = ARM_REG_INVALID, mem_index = ARM_REG_INVALID, mem_scale = 1, mem_disp = 0,
     shift_type = ARM_SFT_INVALID, shift_value = 0\<rparr>"

definition arm_memory_operand :: "arm_reg \<Rightarrow> arm_reg \<Rightarrow> int \<Rightarrow> arm_Operand" where
  "arm_memory_operand b i d =
    \<lparr>aop_valid = True, op_index = 1, op_type = ARM_OP_MEM, op_reg = ARM_REG_INVALID,
     mem_base = b, mem_index = i, mem_scale = 1, mem_disp = d,
     shift_type = ARM_SFT_INVALID, shift_value = 0\<rparr>"

text \<open>
  A build with the \<^verbatim>\<open>assert\<close>s in place, whose wide shifts give 0; and a state stopped
  at the instruction at \<open>0x2000\<close>, with \<^verbatim>\<open>r0 = 0x1000\<close> and \<^verbatim>\<open>r15 = 0x2000\<close>.
\<close>

fun shifted_out :: "32 word \<Rightarrow> nat \<Rightarrow> 32 word" where
  "shifted_out x n = 0"

definition debug_build :: Build where
  "debug_build = \<lparr>NDEBUG = False, shr_wide = shifted_out, shl_wide = shifted_out\<rparr>"

fun r0_and_pc :: "int \<Rightarrow> Register" where
  "r0_and_pc i =
    \<lparr>reg_valid = True,
     reg_value = (if i = 0 then 0x1000 else if i = 15 then 0x2000 else 0)\<rparr>"

definition state_r0_pc :: State where
  "state_r0_pc =
    \<lparr>by_name = unresolved, gp_register = r0_and_pc,
     flags_register = \<lparr>reg_valid = True, reg_value = 0\<rparr>\<rparr>"

section \<open>Properties\<close>

lemma even_cc_cases:
  assumes "even (c::nat)" "c \<le> 14"
  shows "c \<in> {0, 2, 4, 6, 8, 10, 12, 14}"
proof -
  from assms(1) obtain k where k: "c = 2 * k" by (auto elim: evenE)
  with assms(2) have "k \<le> 7" by simp
  then have "k \<in> {0, 1, 2, 3, 4, 5, 6, 7}" by auto
  with k show ?thesis by auto
qed

text \<open>
  C10. The predicate is negation-symmetric in the low bit of the condition code: for every
  CPSR value and every even code \<open>c\<close> up to 14, code \<open>c + 1\<close> is taken exactly when code
  \<open>c\<close> is not; code \<open>0xE\<close> (always) is taken and code \<open>0xF\<close> (never) is not taken, for every
  flags value.
\<close>

theorem is_jcc_taken_negation_symmetric:
  "(even c \<and> c \<le> 14 \<longrightarrow> is_jcc_taken f (c + 1) = (\<not> is_jcc_taken f c))
   \<and> is_jcc_taken f 0xE \<and> \<not> is_jcc_taken f 0xF"
proof (intro conjI impI)
  assume "even c \<and> c \<le> 14"
  then have "c \<in> {0, 2, 4, 6, 8, 10, 12, 14}" using even_cc_cases by blast
  then consider "c = 0" | "c = 2" | "c = 4" | "c = 6" | "c = 8" | "c = 10" | "c = 12" | "c = 14"
    by blast
  then show "is_jcc_taken f (c + 1) = (\<not> is_jcc_taken f c)"
  proof cases
    case 1 then show ?thesis by (simp add: is_jcc_taken_def Let_def; blast)
  next
    case 2 then show ?thesis by (simp add: is_jcc_taken_def Let_def; blast)
  next
    case 3 then show ?thesis by (simp add: is_jcc_taken_def Let_def; blast)
  next
    case 4 then show ?thesis by (simp add: is_jcc_taken_def Let_def; blast)
  next
    case 5 then show ?thesis by (simp add: is_jcc_taken_def Let_def; blast)
  next
    case 6 then show ?thesis by (simp add: is_jcc_taken_def Let_def; blast)
  next
    case 7 then show ?thesis by (simp add: is_jcc_taken_def Let_def; blast)
  next
    case 8 then show ?thesis by (simp add: is_jcc_taken_def Let_def; blast)
  qed
next
  show "is_jcc_taken f 0xE" by (simp add: is_jcc_taken_def Let_def)
next
  show "\<not> is_jcc_taken f 0xF" by (simp add: is_jcc_taken_def Let_def)
qed

theorem is_jcc_taken_negation_symmetric_witness:
  "even (10::nat) \<and> (10::nat) \<le> 14
   \<and> is_jcc_taken 0x80000000 11 = (\<not> is_jcc_taken 0x80000000 10)
   \<and> is_jcc_taken 0x80000000 11"
  using is_jcc_taken_negation_symmetric [of 10 "0x80000000"]
  by (simp add: is_jcc_taken_def Let_def)

subsection \<open>Signal catalog\<close>

lemma distinct_signal_macros: "distinct signal_macros"
  by (simp add: signal_macros_def)

lemma names_map_filter:
  "map exc_name (List.map_filter
      (\<lambda>m. case d m of None \<Rightarrow> None | Some v \<Rightarrow> Some \<lparr>exc_value = v, exc_name = m\<rparr>) ms)
   = filter (\<lambda>m. d m \<noteq> None) ms"
  by (induction ms) (auto split: option.splits)

lemma names_Exceptions: "map exc_name (Exceptions d) = filter (\<lambda>m. d m \<noteq> None) signal_macros"
  unfolding Exceptions_def by (rule names_map_filter)

lemma distinct_names_Exceptions: "distinct (map exc_name (Exceptions d))"
  by (simp add: names_Exceptions distinct_signal_macros)

lemma exceptionName_in_mem:
  "v \<in> exc_value ` set es \<Longrightarrow> exceptionName_in es v \<in> exc_name ` set es"
  by (induction es) auto

lemma exceptionValue_in_Name:
  "distinct (map exc_name es) \<Longrightarrow> v \<in> exc_value ` set es \<Longrightarrow>
   exceptionValue_in es (exceptionName_in es v) = v"
proof (induction es)
  case Nil
  then show ?case by simp
next
  case (Cons e es)
  show ?case
  proof (cases "v = exc_value e")
    case True
    then show ?thesis by simp
  next
    case False
    with Cons.prems have mem: "v \<in> exc_value ` set es" by auto
    then have "exceptionName_in es v \<in> exc_name ` set es" by (rule exceptionName_in_mem)
    with Cons.prems(1) have "exceptionName_in es v \<noteq> exc_name e" by auto
    with False Cons mem show ?thesis by simp
  qed
qed

lemma exceptionValue_in_unknown:
  "n \<notin> exc_name ` set es \<Longrightarrow> exceptionValue_in es n = - 1"
  by (induction es) auto

lemma exceptionName_in_unknown:
  "v \<notin> exc_value ` set es \<Longrightarrow> exceptionName_in es v = []"
  by (induction es) auto

text \<open>
  C6. On every platform (whatever signal macros it defines, with whatever numbers), for
  every number \<open>v\<close> that occurs in the catalog, looking up the name of \<open>v\<close> and then the
  value of that name gives \<open>v\<close> back. Rows that share a number do not break this: the
  name found is that of the first row with the number, and names are unique in the table.
\<close>

theorem signal_roundtrip:
  "v \<in> exc_value ` set (Exceptions defined) \<Longrightarrow>
   exceptionValue defined (exceptionName defined v) = v"
  unfolding exceptionValue_def exceptionName_def
  by (rule exceptionValue_in_Name [OF distinct_names_Exceptions])

theorem signal_roundtrip_witness:
  "29 \<in> exc_value ` set (Exceptions linux_signals)
   \<and> exceptionName linux_signals 29 = ''SIGPOLL''
   \<and> exceptionValue linux_signals ''SIGIO'' = 29
   \<and> exceptionValue linux_signals (exceptionName linux_signals 29) = 29"
proof -
  have h: "29 \<in> exc_value ` set (Exceptions linux_signals)"
    by (simp add: Exceptions_def linux_signals_def signal_macros_def)
  have n: "exceptionName linux_signals 29 = ''SIGPOLL''"
    by (simp add: exceptionName_def Exceptions_def linux_signals_def signal_macros_def)
  have i: "exceptionValue linux_signals ''SIGIO'' = 29"
    by (simp add: exceptionValue_def Exceptions_def linux_signals_def signal_macros_def)
  from h n i signal_roundtrip [OF h] show ?thesis by simp
qed

text \<open>
  C7. A name that is not in the catalog has value \<open>-1\<close>, and a number that is not in the
  catalog has the empty name. Both lookups are total functions: they have no other
  failure.
\<close>

theorem signal_unknown:
  "(n \<notin> exc_name ` set (Exceptions defined) \<longrightarrow> exceptionValue defined n = - 1)
   \<and> (v \<notin> exc_value ` set (Exceptions defined) \<longrightarrow> exceptionName defined v = [])"
  unfolding exceptionValue_def exceptionName_def
  by (simp add: exceptionValue_in_unknown exceptionName_in_unknown)

theorem signal_unknown_witness:
  "''SIGFOO'' \<notin> exc_name ` set (Exceptions linux_signals)
   \<and> exceptionValue linux_signals ''SIGFOO'' = - 1
   \<and> 0 \<notin> exc_value ` set (Exceptions linux_signals)
   \<and> exceptionName linux_signals 0 = []"
proof -
  have a: "''SIGFOO'' \<notin> exc_name ` set (Exceptions linux_signals)"
    by (simp add: Exceptions_def linux_signals_def signal_macros_def)
  have b: "0 \<notin> exc_value ` set (Exceptions linux_signals)"
    by (simp add: Exceptions_def linux_signals_def signal_macros_def)
  from a b signal_unknown [of "''SIGFOO''" linux_signals 0] show ?thesis by simp
qed

subsection \<open>Interrupted system calls\<close>

lemma do_while_first:
  "first_uninterrupted call w k \<Longrightarrow> do_while_EINTR call w = Some (attempt call w k)"
proof (induction k arbitrary: w)
  case 0
  then have "\<not> interrupted (call w)" by (simp add: first_uninterrupted_def attempt_def)
  then show ?case
    by (subst do_while_EINTR.simps) (auto simp: interrupted_def attempt_def split: prod.splits)
next
  case (Suc k)
  from Suc.prems have i0: "interrupted (call w)"
    by (auto simp: first_uninterrupted_def attempt_def dest: spec [of _ 0])
  have "first_uninterrupted call (snd (call w)) k"
    using Suc.prems unfolding first_uninterrupted_def attempt_def
    by (metis Suc_less_eq world_after.simps(2))
  then have "do_while_EINTR call (snd (call w)) = Some (attempt call (snd (call w)) k)"
    by (rule Suc.IH)
  with i0 show ?case
    by (subst do_while_EINTR.simps) (auto simp: interrupted_def attempt_def split: prod.splits)
qed

lemma do_while_returns:
  "do_while_EINTR call w = Some r \<Longrightarrow> \<exists>k. first_uninterrupted call w k \<and> r = attempt call w k"
proof (induction rule: do_while_EINTR.raw_induct [rotated 1, consumes 1])
  case (1 f call w r)
  show ?case
  proof (cases "interrupted (call w)")
    case True
    with 1(2) have "f call (snd (call w)) = Some r"
      by (auto simp: interrupted_def split: prod.splits)
    from 1(1) [OF this] obtain k where k: "first_uninterrupted call (snd (call w)) k"
      "r = attempt call (snd (call w)) k" by blast
    have "first_uninterrupted call w (Suc k)"
      unfolding first_uninterrupted_def
    proof (intro conjI allI impI)
      fix j assume "j < Suc k"
      show "interrupted (attempt call w j)"
      proof (cases j)
        case 0 with True show ?thesis by (simp add: attempt_def)
      next
        case (Suc j')
        with \<open>j < Suc k\<close> k(1) show ?thesis by (simp add: first_uninterrupted_def attempt_def)
      qed
    next
      from k(1) show "\<not> interrupted (attempt call w (Suc k))"
        by (simp add: first_uninterrupted_def attempt_def)
    qed
    moreover have "r = attempt call w (Suc k)" using k(2) by (simp add: attempt_def)
    ultimately show ?thesis by blast
  next
    case False
    with 1(2) have "r = call w" by (auto simp: interrupted_def split: prod.splits if_splits)
    with False have "first_uninterrupted call w 0 \<and> r = attempt call w 0"
      by (simp add: first_uninterrupted_def attempt_def)
    then show ?thesis by blast
  qed
qed

lemma do_while_EINTR_iff:
  "do_while_EINTR call w = Some r \<longleftrightarrow>
   (\<exists>k. first_uninterrupted call w k \<and> r = attempt call w k)"
  using do_while_first do_while_returns by blast

lemma do_while_EINTR_not_interrupted:
  "do_while_EINTR call w = Some r \<Longrightarrow> \<not> interrupted r"
  by (auto simp: first_uninterrupted_def dest!: do_while_returns)

text \<open>
  C8. Each of the four wrappers returns exactly when some attempt of the underlying call
  is not an \<^verbatim>\<open>EINTR\<close> failure, and then it returns the result of the first such attempt
  (every earlier attempt failed with \<^verbatim>\<open>EINTR\<close> and was reissued); so a result it
  returns is never the interrupted one.
\<close>

theorem eintr_never_surfaced:
  "(native_read libc fd buf count w = Some r \<longleftrightarrow>
      (\<exists>k. first_uninterrupted (libc (SYS_read fd buf count)) w k
         \<and> r = attempt (libc (SYS_read fd buf count)) w k))
   \<and> (native_write libc fd buf count w = Some r \<longleftrightarrow>
      (\<exists>k. first_uninterrupted (libc (SYS_write fd buf count)) w k
         \<and> r = attempt (libc (SYS_write fd buf count)) w k))
   \<and> (native_select libc nfds rfds wfds efds tmo w = Some r \<longleftrightarrow>
      (\<exists>k. first_uninterrupted (libc (SYS_select nfds rfds wfds efds tmo)) w k
         \<and> r = attempt (libc (SYS_select nfds rfds wfds efds tmo)) w k))
   \<and> (native_waitpid libc pid status options w = Some r \<longleftrightarrow>
      (\<exists>k. first_uninterrupted (libc (SYS_waitpid pid status options)) w k
         \<and> r = attempt (libc (SYS_waitpid pid status options)) w k))
   \<and> (native_read libc fd buf count w = Some r \<longrightarrow> \<not> interrupted r)
   \<and> (native_write libc fd buf count w = Some r \<longrightarrow> \<not> interrupted r)
   \<and> (native_select libc nfds rfds wfds efds tmo w = Some r \<longrightarrow> \<not> interrupted r)
   \<and> (native_waitpid libc pid status options w = Some r \<longrightarrow> \<not> interrupted r)"
  unfolding native_read_def native_write_def native_select_def native_waitpid_def
  by (intro conjI impI do_while_EINTR_iff) (erule do_while_EINTR_not_interrupted)+

lemma two_signals:
  "first_uninterrupted (signals_pending sc) \<lparr>errno = 0, kernel = 2\<rparr> 2"
  "attempt (signals_pending sc) \<lparr>errno = 0, kernel = 2\<rparr> 2 = (1, \<lparr>errno = EINTR, kernel = 0\<rparr>)"
  by (simp_all add: first_uninterrupted_def attempt_def interrupted_def signals_pending_def
      numeral_2_eq_2 less_Suc_eq)

theorem eintr_never_surfaced_witness:
  "first_uninterrupted (signals_pending (SYS_read 3 0 1)) \<lparr>errno = 0, kernel = 2\<rparr> 2
   \<and> interrupted (attempt (signals_pending (SYS_read 3 0 1)) \<lparr>errno = 0, kernel = 2\<rparr> 0)
   \<and> native_read signals_pending 3 0 1 \<lparr>errno = 0, kernel = 2\<rparr> = Some (1, \<lparr>errno = EINTR, kernel = 0\<rparr>)
   \<and> native_write signals_pending 3 0 1 \<lparr>errno = 0, kernel = 2\<rparr> = Some (1, \<lparr>errno = EINTR, kernel = 0\<rparr>)
   \<and> native_select signals_pending 4 0 0 0 0 \<lparr>errno = 0, kernel = 2\<rparr> = Some (1, \<lparr>errno = EINTR, kernel = 0\<rparr>)
   \<and> native_waitpid signals_pending 7 0 0 \<lparr>errno = 0, kernel = 2\<rparr> = Some (1, \<lparr>errno = EINTR, kernel = 0\<rparr>)
   \<and> \<not> interrupted (1, \<lparr>errno = EINTR, kernel = 0::nat\<rparr>)"
proof -
  have i: "interrupted (attempt (signals_pending (SYS_read 3 0 1)) \<lparr>errno = 0, kernel = 2\<rparr> 0)"
    by (simp add: attempt_def interrupted_def signals_pending_def)
  have n: "\<not> interrupted (1, \<lparr>errno = EINTR, kernel = 0::nat\<rparr>)"
    by (simp add: interrupted_def)
  have e: "\<exists>k. first_uninterrupted (signals_pending sc) \<lparr>errno = 0, kernel = 2\<rparr> k
      \<and> (1, \<lparr>errno = EINTR, kernel = 0\<rparr>) = attempt (signals_pending sc) \<lparr>errno = 0, kernel = 2\<rparr> k" for sc
    using two_signals [of sc] by (intro exI [of _ 2]) simp
  from i n two_signals(1) [of "SYS_read 3 0 1"] e
    eintr_never_surfaced [of signals_pending 3 0 1 "\<lparr>errno = 0, kernel = 2\<rparr>"
      "(1, \<lparr>errno = EINTR, kernel = 0\<rparr>)" 4 0 0 0 0 7 0 0]
  show ?thesis by simp
qed

subsection \<open>Backward instruction search\<close>

lemma stage1_le: "fs \<le> cur \<Longrightarrow> stage1 dec buf cur n fs \<le> cur"
  by (induction n arbitrary: fs) (auto simp: Let_def)

lemma stage2_le: "fs \<le> cur \<Longrightarrow> stage2 dec buf bufSize cur orig n fs \<le> cur"
  by (induction n arbitrary: fs) (auto simp: Let_def)

lemma stage3_le: "stage3 dec buf bufSize cur n \<le> cur"
  by (induction n) (auto simp: Let_def)

text \<open>
  C9. For every decoder, buffer and current offset, the delta that \<^verbatim>\<open>length_disasm_back\<close>
  returns is at most the current offset (and, being a \<^verbatim>\<open>size_t\<close>, at least 0): stepping
  back by it from the current offset stays at or after the start of the buffer.
\<close>

theorem length_disasm_back_le: "length_disasm_back dec buf bufSize curInstOffset \<le> curInstOffset"
  by (simp add: length_disasm_back_def Let_def stage1_le stage2_le stage3_le)

lemma stage1_none:
  "\<forall>i<n. \<not> ends_here dec buf cur i \<Longrightarrow> n \<le> cur \<Longrightarrow> stage1 dec buf cur n fs = fs"
  by (induction n arbitrary: fs) (auto simp: Let_def ends_here_def)

lemma stage1_least:
  "ends_here dec buf cur offs \<Longrightarrow> \<forall>i<offs. \<not> ends_here dec buf cur i \<Longrightarrow> offs < n \<Longrightarrow> n \<le> cur
   \<Longrightarrow> stage1 dec buf cur n fs = cur - offs"
proof (induction n arbitrary: fs)
  case 0
  then show ?case by simp
next
  case (Suc n)
  show ?case
  proof (cases "offs = n")
    case True
    with Suc.prems have v: "inst_valid (Instruction_range dec buf n cur)"
      and e: "n + byte_size (Instruction_range dec buf n cur) = cur"
      by (simp_all add: ends_here_def)
    from e have "byte_size (Instruction_range dec buf n cur) = cur - n" by arith
    with v e have "stage1 dec buf cur (Suc n) fs = stage1 dec buf cur n (cur - n)"
      by (simp add: Let_def)
    also have "\<dots> = cur - n" using Suc.prems True by (intro stage1_none) auto
    finally show ?thesis using True by simp
  next
    case False
    with Suc.prems have "offs < n" "n \<le> cur" by auto
    from Suc.IH [OF Suc.prems(1,2) this] show ?thesis by (simp add: Let_def)
  qed
qed

text \<open>
  C1. When some start offset before the current instruction decodes to a valid
  instruction that ends exactly where the current one starts, \<^verbatim>\<open>length_disasm_back\<close>
  returns the distance from the smallest such offset to the current offset. That is the
  size of the instruction decoded there, and no other candidate is longer. The result is
  fixed by stage 1 alone: it does not depend on the buffer size, which only the later
  stages read.
\<close>

theorem stage1_longest_match:
  assumes "ends_here dec buf curInstOffset offs"
    and "\<forall>i<offs. \<not> ends_here dec buf curInstOffset i"
  shows "length_disasm_back dec buf bufSize curInstOffset = curInstOffset - offs
    \<and> length_disasm_back dec buf bufSize curInstOffset
        = byte_size (Instruction_range dec buf offs curInstOffset)
    \<and> (\<forall>i. ends_here dec buf curInstOffset i \<longrightarrow>
          byte_size (Instruction_range dec buf i curInstOffset)
            \<le> length_disasm_back dec buf bufSize curInstOffset)"
proof -
  from assms(1) have lt: "offs < curInstOffset" by (simp add: ends_here_def)
  have s1: "stage1 dec buf curInstOffset curInstOffset 0 = curInstOffset - offs"
    using assms lt by (intro stage1_least) auto
  with lt have r: "length_disasm_back dec buf bufSize curInstOffset = curInstOffset - offs"
    by (simp add: length_disasm_back_def Let_def)
  have sz: "byte_size (Instruction_range dec buf o' curInstOffset) = curInstOffset - o'"
    if "ends_here dec buf curInstOffset o'" for o'
    using that by (auto simp: ends_here_def)
  have "offs \<le> o'" if "ends_here dec buf curInstOffset o'" for o'
    using that assms(2) by (meson not_le_imp_less)
  with r sz assms(1) show ?thesis by (auto simp: diff_le_mono2)
qed


theorem stage1_longest_match_witness:
  "ends_here toy_decoder [0x00, 0x66, 0x90, 0xC3] 3 1
   \<and> \<not> ends_here toy_decoder [0x00, 0x66, 0x90, 0xC3] 3 0
   \<and> ends_here toy_decoder [0x00, 0x66, 0x90, 0xC3] 3 2
   \<and> length_disasm_back toy_decoder [0x00, 0x66, 0x90, 0xC3] 4 3 = 2"
proof -
  have a: "ends_here toy_decoder [0x00, 0x66, 0x90, 0xC3] 3 1"
    by (simp add: ends_here_def Instruction_range_def toy_decoder_def)
  have b: "\<forall>i<1. \<not> ends_here toy_decoder [0x00, 0x66, 0x90, 0xC3] 3 i"
    by (simp add: ends_here_def Instruction_range_def toy_decoder_def)
  have c: "ends_here toy_decoder [0x00, 0x66, 0x90, 0xC3] 3 2"
    by (simp add: ends_here_def Instruction_range_def toy_decoder_def)
  from b have z: "\<not> ends_here toy_decoder [0x00, 0x66, 0x90, 0xC3] 3 0" by simp
  from a z c stage1_longest_match [OF a b, of 4] show ?thesis by simp
qed

subsection \<open>x86: effective address and filler instructions\<close>

text \<open>
  C3. For an x86 memory-expression operand whose base is the instruction pointer and
  whose instruction has no FS or GS prefix, \<^verbatim>\<open>get_effective_address\<close> reports ok and the
  address it returns is the base value plus the byte length of the instruction, plus
  index times scale, plus the displacement (an unresolved base or index counts as 0).
  The witness is the instruction of length 4 with operand \<^verbatim>\<open>[rip+0x10]\<close> and
  \<^verbatim>\<open>rip = 0x1000\<close>: the address is \<open>0x1014\<close>.
\<close>

theorem rip_relative:
  assumes "op_valid op" and "general_type op = TYPE_EXPRESSION"
    and "base (expression op) = X86_REG_RIP"
    and "PREFIX_GS \<notin> owner_prefix op" and "PREFIX_FS \<notin> owner_prefix op"
  shows "get_effective_address fmt op state =
    (((if reg_valid (by_name state (register_name fmt X86_REG_RIP))
       then valueAsAddress (by_name state (register_name fmt X86_REG_RIP)) else 0)
      + of_nat (owner_size op))
     + (if reg_valid (by_name state (register_name fmt (index (expression op))))
        then valueAsAddress (by_name state (register_name fmt (index (expression op)))) else 0)
       * word_of_int (scale (expression op))
     + word_of_int (displacement (expression op)), True)"
  using assms by (simp add: get_effective_address_def Let_def)

theorem rip_relative_witness:
  "op_valid (memory_operand X86_REG_RIP X86_REG_INVALID 1 0x10 4)
   \<and> general_type (memory_operand X86_REG_RIP X86_REG_INVALID 1 0x10 4) = TYPE_EXPRESSION
   \<and> base (expression (memory_operand X86_REG_RIP X86_REG_INVALID 1 0x10 4)) = X86_REG_RIP
   \<and> owner_size (memory_operand X86_REG_RIP X86_REG_INVALID 1 0x10 4) = 4
   \<and> owner_prefix (memory_operand X86_REG_RIP X86_REG_INVALID 1 0x10 4) = {}
   \<and> valueAsAddress (by_name state_rip_0x1000 ''rip'') = 0x1000
   \<and> get_effective_address example_formatter
        (memory_operand X86_REG_RIP X86_REG_INVALID 1 0x10 4) state_rip_0x1000 = (0x1014, True)"
proof -
  have h: "op_valid (memory_operand X86_REG_RIP X86_REG_INVALID 1 0x10 4)"
    "general_type (memory_operand X86_REG_RIP X86_REG_INVALID 1 0x10 4) = TYPE_EXPRESSION"
    "base (expression (memory_operand X86_REG_RIP X86_REG_INVALID 1 0x10 4)) = X86_REG_RIP"
    "PREFIX_GS \<notin> owner_prefix (memory_operand X86_REG_RIP X86_REG_INVALID 1 0x10 4)"
    "PREFIX_FS \<notin> owner_prefix (memory_operand X86_REG_RIP X86_REG_INVALID 1 0x10 4)"
    by (simp_all add: memory_operand_def invalid_operand_def)
  have v: "owner_size (memory_operand X86_REG_RIP X86_REG_INVALID 1 0x10 4) = 4"
    "owner_prefix (memory_operand X86_REG_RIP X86_REG_INVALID 1 0x10 4) = {}"
    "index (expression (memory_operand X86_REG_RIP X86_REG_INVALID 1 0x10 4)) = X86_REG_INVALID"
    "scale (expression (memory_operand X86_REG_RIP X86_REG_INVALID 1 0x10 4)) = 1"
    "displacement (expression (memory_operand X86_REG_RIP X86_REG_INVALID 1 0x10 4)) = 0x10"
    by (simp_all add: memory_operand_def invalid_operand_def)
  have r: "by_name state_rip_0x1000 (register_name example_formatter X86_REG_RIP)
      = \<lparr>reg_valid = True, reg_value = 0x1000\<rparr>"
    "by_name state_rip_0x1000 (register_name example_formatter X86_REG_INVALID) = invalid_Register"
    "by_name state_rip_0x1000 ''rip'' = \<lparr>reg_valid = True, reg_value = 0x1000\<rparr>"
    by (simp_all add: state_rip_0x1000_def example_formatter_def capstone_register_name_def)
  from h(1,2,3) v(1,2) r(3)
    rip_relative [OF h, of example_formatter state_rip_0x1000]
  show ?thesis
    by (simp add: v r valueAsAddress_def invalid_Register_def)
qed

lemma is_filling_nop:
  "inst_valid inst \<Longrightarrow> operation inst = X86_INS_NOP \<Longrightarrow> is_filling z inst"
  by (simp add: is_filling_def Let_def)

lemma is_filling_mov:
  "inst_valid inst \<Longrightarrow> operation inst = X86_INS_MOV \<Longrightarrow>
   op_valid (operands inst 0) \<Longrightarrow> op_valid (operands inst 1) \<Longrightarrow>
   general_type (operands inst 0) = TYPE_REGISTER \<Longrightarrow>
   general_type (operands inst 1) = TYPE_REGISTER \<Longrightarrow>
   reg (operands inst 0) = reg (operands inst 1) \<Longrightarrow> is_filling z inst"
  by (simp add: is_filling_def Let_def)

lemma is_filling_lea_index:
  "inst_valid inst \<Longrightarrow> operation inst = X86_INS_LEA \<Longrightarrow>
   op_valid (operands inst 0) \<Longrightarrow> op_valid (operands inst 1) \<Longrightarrow>
   general_type (operands inst 0) = TYPE_REGISTER \<Longrightarrow>
   general_type (operands inst 1) = TYPE_EXPRESSION \<Longrightarrow>
   scale (expression (operands inst 1)) = 1 \<Longrightarrow>
   displacement (expression (operands inst 1)) = 0 \<Longrightarrow>
   base (expression (operands inst 1)) = X86_REG_INVALID \<Longrightarrow>
   index (expression (operands inst 1)) = reg (operands inst 0) \<Longrightarrow> is_filling z inst"
  by (simp add: is_filling_def Let_def)

lemma is_filling_lea_base:
  "inst_valid inst \<Longrightarrow> operation inst = X86_INS_LEA \<Longrightarrow>
   op_valid (operands inst 0) \<Longrightarrow> op_valid (operands inst 1) \<Longrightarrow>
   general_type (operands inst 0) = TYPE_REGISTER \<Longrightarrow>
   general_type (operands inst 1) = TYPE_EXPRESSION \<Longrightarrow>
   scale (expression (operands inst 1)) = 1 \<Longrightarrow>
   displacement (expression (operands inst 1)) = 0 \<Longrightarrow>
   index (expression (operands inst 1)) = X86_REG_INVALID \<Longrightarrow>
   base (expression (operands inst 1)) = reg (operands inst 0) \<Longrightarrow> is_filling z inst"
  by (simp add: is_filling_def Let_def)


text \<open>
  C5. For a valid instruction, \<^verbatim>\<open>is_filling\<close> is true when the operation is \<^verbatim>\<open>nop\<close>;
  when it is a \<^verbatim>\<open>mov\<close> of two valid register operands naming the same register; and
  when it is a \<^verbatim>\<open>lea\<close> of a valid register operand and a valid memory expression with
  scale 1 and displacement 0 whose only register (the index when there is no base, the
  base when there is no index) is the destination register. This holds with the
  zero-bytes switch on or off.
\<close>

theorem is_filling_degenerate:
  assumes "inst_valid inst"
  shows "(operation inst = X86_INS_NOP \<longrightarrow> is_filling z inst)
    \<and> (operation inst = X86_INS_MOV
        \<and> op_valid (operands inst 0) \<and> op_valid (operands inst 1)
        \<and> general_type (operands inst 0) = TYPE_REGISTER
        \<and> general_type (operands inst 1) = TYPE_REGISTER
        \<and> reg (operands inst 0) = reg (operands inst 1)
        \<longrightarrow> is_filling z inst)
    \<and> (operation inst = X86_INS_LEA
        \<and> op_valid (operands inst 0) \<and> op_valid (operands inst 1)
        \<and> general_type (operands inst 0) = TYPE_REGISTER
        \<and> general_type (operands inst 1) = TYPE_EXPRESSION
        \<and> scale (expression (operands inst 1)) = 1
        \<and> displacement (expression (operands inst 1)) = 0
        \<and> ((base (expression (operands inst 1)) = X86_REG_INVALID
              \<and> index (expression (operands inst 1)) = reg (operands inst 0))
           \<or> (index (expression (operands inst 1)) = X86_REG_INVALID
              \<and> base (expression (operands inst 1)) = reg (operands inst 0)))
        \<longrightarrow> is_filling z inst)"
proof (intro conjI impI)
  assume "operation inst = X86_INS_NOP"
  with assms show "is_filling z inst" by (rule is_filling_nop)
next
  assume "operation inst = X86_INS_MOV
        \<and> op_valid (operands inst 0) \<and> op_valid (operands inst 1)
        \<and> general_type (operands inst 0) = TYPE_REGISTER
        \<and> general_type (operands inst 1) = TYPE_REGISTER
        \<and> reg (operands inst 0) = reg (operands inst 1)"
  with assms show "is_filling z inst" by (intro is_filling_mov) simp_all
next
  assume h: "operation inst = X86_INS_LEA
        \<and> op_valid (operands inst 0) \<and> op_valid (operands inst 1)
        \<and> general_type (operands inst 0) = TYPE_REGISTER
        \<and> general_type (operands inst 1) = TYPE_EXPRESSION
        \<and> scale (expression (operands inst 1)) = 1
        \<and> displacement (expression (operands inst 1)) = 0
        \<and> ((base (expression (operands inst 1)) = X86_REG_INVALID
              \<and> index (expression (operands inst 1)) = reg (operands inst 0))
           \<or> (index (expression (operands inst 1)) = X86_REG_INVALID
              \<and> base (expression (operands inst 1)) = reg (operands inst 0)))"
  then consider
      "base (expression (operands inst 1)) = X86_REG_INVALID"
      "index (expression (operands inst 1)) = reg (operands inst 0)"
    | "index (expression (operands inst 1)) = X86_REG_INVALID"
      "base (expression (operands inst 1)) = reg (operands inst 0)"
    by blast
  then show "is_filling z inst"
  proof cases
    case 1
    with assms h show ?thesis by (intro is_filling_lea_index) simp_all
  next
    case 2
    with assms h show ?thesis by (intro is_filling_lea_base) simp_all
  qed
qed

theorem is_filling_degenerate_witness:
  "inst_valid nop_inst \<and> operation nop_inst = X86_INS_NOP \<and> is_filling False nop_inst
   \<and> inst_valid mov_eax_eax \<and> operation mov_eax_eax = X86_INS_MOV
   \<and> reg (operands mov_eax_eax 0) = X86_REG_EAX \<and> reg (operands mov_eax_eax 1) = X86_REG_EAX
   \<and> is_filling False mov_eax_eax
   \<and> inst_valid lea_eax_eax \<and> operation lea_eax_eax = X86_INS_LEA
   \<and> reg (operands lea_eax_eax 0) = X86_REG_EAX
   \<and> expression (operands lea_eax_eax 1)
       = \<lparr>base = X86_REG_EAX, index = X86_REG_INVALID, scale = 1, displacement = 0\<rparr>
   \<and> is_filling False lea_eax_eax"
proof -
  have n: "inst_valid nop_inst" "operation nop_inst = X86_INS_NOP"
    by (simp_all add: nop_inst_def)
  have m: "inst_valid mov_eax_eax" "operation mov_eax_eax = X86_INS_MOV"
    "op_valid (operands mov_eax_eax 0)" "op_valid (operands mov_eax_eax 1)"
    "general_type (operands mov_eax_eax 0) = TYPE_REGISTER"
    "general_type (operands mov_eax_eax 1) = TYPE_REGISTER"
    "reg (operands mov_eax_eax 0) = X86_REG_EAX" "reg (operands mov_eax_eax 1) = X86_REG_EAX"
    by (simp_all add: mov_eax_eax_def register_operand_def invalid_operand_def)
  have l: "inst_valid lea_eax_eax" "operation lea_eax_eax = X86_INS_LEA"
    "op_valid (operands lea_eax_eax 0)" "op_valid (operands lea_eax_eax 1)"
    "general_type (operands lea_eax_eax 0) = TYPE_REGISTER"
    "general_type (operands lea_eax_eax 1) = TYPE_EXPRESSION"
    "reg (operands lea_eax_eax 0) = X86_REG_EAX"
    "expression (operands lea_eax_eax 1)
       = \<lparr>base = X86_REG_EAX, index = X86_REG_INVALID, scale = 1, displacement = 0\<rparr>"
    by (simp_all add: lea_eax_eax_def register_operand_def memory_operand_def invalid_operand_def)
  from n m l
    is_filling_degenerate [OF n(1), of False]
    is_filling_degenerate [OF m(1), of False]
    is_filling_degenerate [OF l(1), of False]
  show ?thesis by simp
qed

subsection \<open>ARM: the program counter as operand\<close>

lemma adjustR15Value_pc:
  "adjustR15Value cpuMode insn 15 v =
    (if cpuMode = ARM32 then Inr (rva insn + 8)
     else if cpuMode = Thumb then Inr (rva insn + 4)
     else Inl UnsupportedMode)"
  by (cases cpuMode) (simp_all add: adjustR15Value_def)

lemma capstoneRegToGPRIndex_R15: "capstoneRegToGPRIndex ARM_REG_R15 = (15, True)"
  by (simp add: capstoneRegToGPRIndex_def)

lemma ea_register_pc:
  assumes "aop_valid operand" "inst_valid insn" "reg_valid (gp_register state 15)"
    and "is_register operand" "op_reg operand = ARM_REG_R15"
  shows "ArchProcessor_get_effective_address bld cpuMode insn operand state =
    (if cpuMode = ARM32 then Inr (rva insn + 8)
     else if cpuMode = Thumb then Inr (rva insn + 4)
     else Inl UnsupportedMode)"
  using assms
  by (simp add: ArchProcessor_get_effective_address_def capstoneRegToGPRIndex_R15
      adjustR15Value_pc del: if_split)

lemma ea_expression_pc:
  assumes "aop_valid operand" "inst_valid insn" "reg_valid (gp_register state 15)"
    and "is_expression operand" "mem_base operand = ARM_REG_R15"
    and "capstoneRegToGPRIndex (mem_index operand) = (i, ok)"
    and "ok \<longrightarrow> reg_valid (gp_register state i)"
    and "reg_valid (flags_register state)
         \<or> (shift_type operand \<noteq> ARM_SFT_RRX \<and> shift_type operand \<noteq> ARM_SFT_RRX_REG)"
  shows "ArchProcessor_get_effective_address bld cpuMode insn operand state =
    (if cpuMode \<noteq> ARM32 \<and> cpuMode \<noteq> Thumb then Inl UnsupportedMode
     else
       let pc = (if cpuMode = ARM32 then rva insn + 8 else rva insn + 4)
       in if ok then
            (case shift bld (ucast (valueAsAddress (gp_register state i))) (shift_type operand)
                    (shift_value operand)
                    (reg_valid (flags_register state)
                     \<and> valueAsInteger (flags_register state) AND 0x20000000 \<noteq> 0) of
               None \<Rightarrow> Inl AssertionFailed
             | Some s \<Rightarrow>
                 Inr (pc + word_of_int (mem_disp operand)
                        + ucast (word_of_int (mem_scale operand) * s)))
          else Inr (pc + word_of_int (mem_disp operand)))"
proof -
  from assms(4) have nr: "\<not> is_register operand"
    by (simp add: is_register_def is_expression_def)
  show ?thesis
  proof (cases ok)
    case True
    with assms nr show ?thesis
      by (auto simp: ArchProcessor_get_effective_address_def capstoneRegToGPRIndex_R15
          adjustR15Value_pc Let_def invalid_Register_def split: option.splits)
  next
    case False
    with assms nr show ?thesis
      by (auto simp: ArchProcessor_get_effective_address_def capstoneRegToGPRIndex_R15
          adjustR15Value_pc Let_def invalid_Register_def)
  qed
qed

text \<open>
  C4. The code does not do what the claim says for a memory expression whose index
  register is \<^verbatim>\<open>r15\<close>. The index value is read from the register state and never passed
  through \<^verbatim>\<open>adjustR15Value\<close>: with a resolved base other than \<^verbatim>\<open>r15\<close> and no shift, the
  address returned is the base plus the displacement plus the scaled \<^verbatim>\<open>r15\<close> of the
  state, whatever the instruction's address, and it is returned in every CPU mode. (As a
  register operand and as a base, \<^verbatim>\<open>r15\<close> has the claimed value: the two lemmas above.)
\<close>

theorem pc_index_not_adjusted:
  assumes "aop_valid operand" and "inst_valid insn" and "is_expression operand"
    and "capstoneRegToGPRIndex (mem_base operand) = (b, True)" and "b \<noteq> 15"
    and "reg_valid (gp_register state b)"
    and "mem_index operand = ARM_REG_R15" and "reg_valid (gp_register state 15)"
    and "shift_type operand = ARM_SFT_INVALID"
  shows "ArchProcessor_get_effective_address bld cpuMode insn operand state =
    Inr (valueAsAddress (gp_register state b) + word_of_int (mem_disp operand)
         + ucast (word_of_int (mem_scale operand)
                  * (ucast (valueAsAddress (gp_register state 15)) :: 32 word)))"
proof -
  from assms(3) have nr: "\<not> is_register operand"
    by (simp add: is_register_def is_expression_def)
  have sh: "shift bld x ARM_SFT_INVALID n c = Some x" for x n c
    by (simp add: shift_def)
  from assms(5) have adj: "adjustR15Value cpuMode insn b v = Inr v" for v
    by (simp add: adjustR15Value_def)
  from assms nr show ?thesis
    by (simp add: ArchProcessor_get_effective_address_def capstoneRegToGPRIndex_R15 sh adj)
qed

theorem pc_index_not_adjusted_witness:
  "mem_base (arm_memory_operand ARM_REG_R0 ARM_REG_R15 0) = ARM_REG_R0
   \<and> mem_index (arm_memory_operand ARM_REG_R0 ARM_REG_R15 0) = ARM_REG_R15
   \<and> rva insn_at_0x2000 = 0x2000
   \<and> valueAsAddress (gp_register state_r0_pc 0) = 0x1000
   \<and> valueAsAddress (gp_register state_r0_pc 15) = 0x2000
   \<and> ArchProcessor_get_effective_address debug_build ARM32 insn_at_0x2000
        (arm_memory_operand ARM_REG_R0 ARM_REG_R15 0) state_r0_pc = Inr 0x3000
   \<and> ArchProcessor_get_effective_address debug_build ARM64 insn_at_0x2000
        (arm_memory_operand ARM_REG_R0 ARM_REG_R15 0) state_r0_pc = Inr 0x3000
   \<and> ArchProcessor_get_effective_address debug_build ARM32 insn_at_0x2000
        (arm_memory_operand ARM_REG_R15 ARM_REG_R0 0) state_r0_pc = Inr 0x3008
   \<and> ArchProcessor_get_effective_address debug_build ARM64 insn_at_0x2000
        (arm_memory_operand ARM_REG_R15 ARM_REG_R0 0) state_r0_pc = Inl UnsupportedMode"
proof -
  have i: "inst_valid insn_at_0x2000" "rva insn_at_0x2000 = 0x2000"
    by (simp_all add: insn_at_0x2000_def)
  have s: "reg_valid (gp_register state_r0_pc j)"
    "reg_valid (flags_register state_r0_pc)"
    "valueAsInteger (flags_register state_r0_pc) = 0"
    "valueAsAddress (gp_register state_r0_pc 0) = 0x1000"
    "valueAsAddress (gp_register state_r0_pc 15) = 0x2000" for j
    by (simp_all add: state_r0_pc_def valueAsAddress_def valueAsInteger_def)
  have x: "aop_valid (arm_memory_operand ARM_REG_R0 ARM_REG_R15 0)"
    "is_expression (arm_memory_operand ARM_REG_R0 ARM_REG_R15 0)"
    "capstoneRegToGPRIndex (mem_base (arm_memory_operand ARM_REG_R0 ARM_REG_R15 0)) = (0, True)"
    "mem_base (arm_memory_operand ARM_REG_R0 ARM_REG_R15 0) = ARM_REG_R0"
    "mem_index (arm_memory_operand ARM_REG_R0 ARM_REG_R15 0) = ARM_REG_R15"
    "shift_type (arm_memory_operand ARM_REG_R0 ARM_REG_R15 0) = ARM_SFT_INVALID"
    "mem_disp (arm_memory_operand ARM_REG_R0 ARM_REG_R15 0) = 0"
    "mem_scale (arm_memory_operand ARM_REG_R0 ARM_REG_R15 0) = 1"
    by (simp_all add: arm_memory_operand_def is_expression_def capstoneRegToGPRIndex_def)
  have b: "aop_valid (arm_memory_operand ARM_REG_R15 ARM_REG_R0 0)"
    "is_expression (arm_memory_operand ARM_REG_R15 ARM_REG_R0 0)"
    "mem_base (arm_memory_operand ARM_REG_R15 ARM_REG_R0 0) = ARM_REG_R15"
    "capstoneRegToGPRIndex (mem_index (arm_memory_operand ARM_REG_R15 ARM_REG_R0 0)) = (0, True)"
    "shift_type (arm_memory_operand ARM_REG_R15 ARM_REG_R0 0) = ARM_SFT_INVALID"
    "mem_disp (arm_memory_operand ARM_REG_R15 ARM_REG_R0 0) = 0"
    "mem_scale (arm_memory_operand ARM_REG_R15 ARM_REG_R0 0) = 1"
    by (simp_all add: arm_memory_operand_def is_expression_def capstoneRegToGPRIndex_def)
  have bug: "ArchProcessor_get_effective_address debug_build m insn_at_0x2000
        (arm_memory_operand ARM_REG_R0 ARM_REG_R15 0) state_r0_pc = Inr 0x3000" for m
    using pc_index_not_adjusted [where bld = debug_build and cpuMode = m,
        OF x(1) i(1) x(2) x(3) _ s(1) x(5) s(1) x(6)]
    by (simp add: x s)
  have ok: "ArchProcessor_get_effective_address debug_build m insn_at_0x2000
        (arm_memory_operand ARM_REG_R15 ARM_REG_R0 0) state_r0_pc =
        (if m \<noteq> ARM32 \<and> m \<noteq> Thumb then Inl UnsupportedMode
         else Inr ((if m = ARM32 then 0x2008 else 0x2004) + 0x1000))" for m
    using ea_expression_pc [where bld = debug_build and cpuMode = m and state = state_r0_pc,
        OF b(1) i(1) s(1) b(2) b(3) b(4)]
    by (simp add: b s i shift_def Let_def)
  from x(4,5) i(2) s(4,5) bug [of ARM32] bug [of ARM64] ok [of ARM32] ok [of ARM64]
  show ?thesis by simp
qed

subsection \<open>Unresolved registers, on both architectures\<close>

lemma arm_register_unresolved:
  assumes "aop_valid operand" "inst_valid insn" "is_register operand"
    and "capstoneRegToGPRIndex (op_reg operand) = (i, ok)"
    and "\<not> ok \<or> \<not> reg_valid (gp_register state i)"
  shows "ArchProcessor_get_effective_address bld cpuMode insn operand state =
    Inl (if ok then FailedToGetRegister i else BadOperandRegister (op_reg operand))"
  using assms by (auto simp: ArchProcessor_get_effective_address_def)

lemma arm_base_unresolved:
  assumes "aop_valid operand" "inst_valid insn" "is_expression operand"
    and "capstoneRegToGPRIndex (mem_base operand) = (i, ok)"
    and "\<not> ok \<or> \<not> reg_valid (gp_register state i)"
  shows "ArchProcessor_get_effective_address bld cpuMode insn operand state =
    Inl (FailedToGetRegister i)"
proof -
  from assms(3) have "\<not> is_register operand"
    by (simp add: is_register_def is_expression_def)
  with assms show ?thesis by (auto simp: ArchProcessor_get_effective_address_def)
qed

lemma arm_index_unresolved:
  assumes "aop_valid operand" "inst_valid insn" "is_expression operand"
    and "capstoneRegToGPRIndex (mem_base operand) = (b, True)"
    and "reg_valid (gp_register state b)"
    and "capstoneRegToGPRIndex (mem_index operand) = (i, True)"
    and "\<not> reg_valid (gp_register state i)"
  shows "ArchProcessor_get_effective_address bld cpuMode insn operand state =
    Inl (FailedToGetRegister i)"
proof -
  from assms(3) have "\<not> is_register operand"
    by (simp add: is_register_def is_expression_def)
  with assms show ?thesis by (simp add: ArchProcessor_get_effective_address_def)
qed

lemma x86_not_ok_iff:
  "\<not> snd (get_effective_address fmt op state) \<longleftrightarrow>
    op_valid op
    \<and> (general_type op = TYPE_EXPRESSION \<or> general_type op = TYPE_ABSOLUTE)
    \<and> ((PREFIX_GS \<in> owner_prefix op \<and> \<not> reg_valid (by_name state ''gs_base''))
       \<or> (PREFIX_FS \<in> owner_prefix op \<and> \<not> reg_valid (by_name state ''fs_base'')))"
  by (cases "general_type op") (simp_all add: get_effective_address_def Let_def)

lemma x86_base_unresolved:
  assumes "op_valid op" "general_type op = TYPE_EXPRESSION"
    and "PREFIX_GS \<notin> owner_prefix op" "PREFIX_FS \<notin> owner_prefix op"
    and "\<not> reg_valid (by_name state (register_name fmt (base (expression op))))"
  shows "get_effective_address fmt op state =
    ((if base (expression op) = X86_REG_RIP then of_nat (owner_size op) else 0)
     + (if reg_valid (by_name state (register_name fmt (index (expression op))))
        then valueAsAddress (by_name state (register_name fmt (index (expression op)))) else 0)
       * word_of_int (scale (expression op))
     + word_of_int (displacement (expression op)), True)"
proof (cases "base (expression op) = X86_REG_RIP")
  case True
  with assms(5) have "\<not> reg_valid (by_name state (register_name fmt X86_REG_RIP))" by simp
  with True assms(1-4) show ?thesis by (simp add: get_effective_address_def Let_def)
next
  case False
  with assms show ?thesis by (simp add: get_effective_address_def Let_def)
qed

lemma x86_register_ok:
  assumes "op_valid op" "general_type op = TYPE_REGISTER"
  shows "get_effective_address fmt op state =
    (valueAsAddress (by_name state (to_string fmt op)), True)"
  using assms by (simp add: get_effective_address_def)

text \<open>
  C2, as stated, fails on x86: the operand \<^verbatim>\<open>[ebx]\<close> against a state that resolves no
  register is a valid memory expression with a register base that cannot be resolved,
  and \<^verbatim>\<open>get_effective_address\<close> reports ok with the address 0.
\<close>

theorem x86_unresolved_base_counterexample:
  "op_valid (memory_operand X86_REG_EBX X86_REG_INVALID 1 0 2)
   \<and> general_type (memory_operand X86_REG_EBX X86_REG_INVALID 1 0 2) = TYPE_EXPRESSION
   \<and> base (expression (memory_operand X86_REG_EBX X86_REG_INVALID 1 0 2)) = X86_REG_EBX
   \<and> \<not> reg_valid (by_name empty_State (register_name example_formatter X86_REG_EBX))
   \<and> get_effective_address example_formatter
        (memory_operand X86_REG_EBX X86_REG_INVALID 1 0 2) empty_State = (0, True)"
  by (simp add: get_effective_address_def memory_operand_def invalid_operand_def
      empty_State_def unresolved_def invalid_Register_def)


lemma arm_index_unresolved_isl:
  assumes "aop_valid operand" "inst_valid insn" "is_expression operand"
    and "capstoneRegToGPRIndex (mem_index operand) = (i, True)"
    and "\<not> reg_valid (gp_register state i)"
  shows "isl (ArchProcessor_get_effective_address bld cpuMode insn operand state)"
proof -
  obtain b okb where b: "capstoneRegToGPRIndex (mem_base operand) = (b, okb)"
    by (cases "capstoneRegToGPRIndex (mem_base operand)")
  show ?thesis
  proof (cases "okb \<and> reg_valid (gp_register state b)")
    case True
    with b have "capstoneRegToGPRIndex (mem_base operand) = (b, True)" by simp
    from arm_index_unresolved [OF assms(1-3) this _ assms(4,5)] True
    show ?thesis by simp
  next
    case False
    then have "\<not> okb \<or> \<not> reg_valid (gp_register state b)" by simp
    from arm_base_unresolved [OF assms(1-3) b this] show ?thesis by simp
  qed
qed

text \<open>
  C2, amended. On ARM, \<^verbatim>\<open>get_effective_address\<close> fails when the register of a register
  operand, the base register of a memory expression, or a general-purpose index
  register of a memory expression is not a general-purpose register of the state or is
  not resolved there. On x86, \<^verbatim>\<open>get_effective_address\<close> reports not-ok exactly when a
  valid memory-expression or absolute operand carries a GS or FS prefix whose segment
  base (\<^verbatim>\<open>gs_base\<close>, \<^verbatim>\<open>fs_base\<close>) is not resolved; an unresolved base register of a
  memory expression counts as 0 and the call reports ok.
\<close>

theorem unresolved_register_reported:
  "(aop_valid operand \<and> inst_valid insn \<and> is_register operand
        \<and> capstoneRegToGPRIndex (op_reg operand) = (i, ok)
        \<and> (\<not> ok \<or> \<not> reg_valid (gp_register state i))
      \<longrightarrow> ArchProcessor_get_effective_address bld cpuMode insn operand state =
            Inl (if ok then FailedToGetRegister i else BadOperandRegister (op_reg operand)))
   \<and> (aop_valid operand \<and> inst_valid insn \<and> is_expression operand
        \<and> capstoneRegToGPRIndex (mem_base operand) = (i, ok)
        \<and> (\<not> ok \<or> \<not> reg_valid (gp_register state i))
      \<longrightarrow> ArchProcessor_get_effective_address bld cpuMode insn operand state =
            Inl (FailedToGetRegister i))
   \<and> (aop_valid operand \<and> inst_valid insn \<and> is_expression operand
        \<and> capstoneRegToGPRIndex (mem_index operand) = (i, True)
        \<and> \<not> reg_valid (gp_register state i)
      \<longrightarrow> isl (ArchProcessor_get_effective_address bld cpuMode insn operand state))
   \<and> (\<not> snd (get_effective_address fmt op st) \<longleftrightarrow>
        op_valid op
        \<and> (general_type op = TYPE_EXPRESSION \<or> general_type op = TYPE_ABSOLUTE)
        \<and> ((PREFIX_GS \<in> owner_prefix op \<and> \<not> reg_valid (by_name st ''gs_base''))
           \<or> (PREFIX_FS \<in> owner_prefix op \<and> \<not> reg_valid (by_name st ''fs_base''))))
   \<and> (op_valid op \<and> general_type op = TYPE_EXPRESSION
        \<and> PREFIX_GS \<notin> owner_prefix op \<and> PREFIX_FS \<notin> owner_prefix op
        \<and> \<not> reg_valid (by_name st (register_name fmt (base (expression op))))
      \<longrightarrow> get_effective_address fmt op st =
            ((if base (expression op) = X86_REG_RIP then of_nat (owner_size op) else 0)
             + (if reg_valid (by_name st (register_name fmt (index (expression op))))
                then valueAsAddress (by_name st (register_name fmt (index (expression op))))
                else 0)
               * word_of_int (scale (expression op))
             + word_of_int (displacement (expression op)), True))"
proof (intro conjI impI)
  assume "aop_valid operand \<and> inst_valid insn \<and> is_register operand
        \<and> capstoneRegToGPRIndex (op_reg operand) = (i, ok)
        \<and> (\<not> ok \<or> \<not> reg_valid (gp_register state i))"
  then show "ArchProcessor_get_effective_address bld cpuMode insn operand state =
            Inl (if ok then FailedToGetRegister i else BadOperandRegister (op_reg operand))"
    by (intro arm_register_unresolved) simp_all
next
  assume "aop_valid operand \<and> inst_valid insn \<and> is_expression operand
        \<and> capstoneRegToGPRIndex (mem_base operand) = (i, ok)
        \<and> (\<not> ok \<or> \<not> reg_valid (gp_register state i))"
  then show "ArchProcessor_get_effective_address bld cpuMode insn operand state =
            Inl (FailedToGetRegister i)"
    by (intro arm_base_unresolved [where ok = ok]) simp_all
next
  assume "aop_valid operand \<and> inst_valid insn \<and> is_expression operand
        \<and> capstoneRegToGPRIndex (mem_index operand) = (i, True)
        \<and> \<not> reg_valid (gp_register state i)"
  then show "isl (ArchProcessor_get_effective_address bld cpuMode insn operand state)"
    by (intro arm_index_unresolved_isl [where i = i]) simp_all
next
  show "\<not> snd (get_effective_address fmt op st) \<longleftrightarrow>
        op_valid op
        \<and> (general_type op = TYPE_EXPRESSION \<or> general_type op = TYPE_ABSOLUTE)
        \<and> ((PREFIX_GS \<in> owner_prefix op \<and> \<not> reg_valid (by_name st ''gs_base''))
           \<or> (PREFIX_FS \<in> owner_prefix op \<and> \<not> reg_valid (by_name st ''fs_base'')))"
    by (rule x86_not_ok_iff)
next
  assume "op_valid op \<and> general_type op = TYPE_EXPRESSION
        \<and> PREFIX_GS \<notin> owner_prefix op \<and> PREFIX_FS \<notin> owner_prefix op
        \<and> \<not> reg_valid (by_name st (register_name fmt (base (expression op))))"
  then show "get_effective_address fmt op st =
            ((if base (expression op) = X86_REG_RIP then of_nat (owner_size op) else 0)
             + (if reg_valid (by_name st (register_name fmt (index (expression op))))
                then valueAsAddress (by_name st (register_name fmt (index (expression op))))
                else 0)
               * word_of_int (scale (expression op))
             + word_of_int (displacement (expression op)), True)"
    by (intro x86_base_unresolved) simp_all
qed


theorem unresolved_register_reported_witness:
  "is_register (arm_register_operand ARM_REG_R3)
   \<and> capstoneRegToGPRIndex ARM_REG_R3 = (3, True)
   \<and> \<not> reg_valid (gp_register empty_State 3)
   \<and> ArchProcessor_get_effective_address debug_build ARM32 insn_at_0x2000
        (arm_register_operand ARM_REG_R3) empty_State = Inl (FailedToGetRegister 3)
   \<and> ArchProcessor_get_effective_address debug_build ARM32 insn_at_0x2000
        (arm_memory_operand ARM_REG_R1 ARM_REG_INVALID 0) empty_State = Inl (FailedToGetRegister 1)
   \<and> isl (ArchProcessor_get_effective_address debug_build ARM32 insn_at_0x2000
        (arm_memory_operand ARM_REG_R1 ARM_REG_R2 0) empty_State)
   \<and> \<not> reg_valid (by_name empty_State ''gs_base'')
   \<and> \<not> snd (get_effective_address example_formatter
        ((memory_operand X86_REG_EBX X86_REG_INVALID 1 0 2)\<lparr>owner_prefix := {PREFIX_GS}\<rparr>)
        empty_State)
   \<and> \<not> reg_valid (by_name empty_State (register_name example_formatter X86_REG_ECX))
   \<and> get_effective_address example_formatter
        (memory_operand X86_REG_ECX X86_REG_INVALID 1 8 2) empty_State = (8, True)"
proof -
  have e: "\<not> reg_valid (gp_register empty_State j)" "\<not> reg_valid (by_name empty_State n)" for j n
    by (simp_all add: empty_State_def unresolved_def invalid_Register_def)
  have i: "inst_valid insn_at_0x2000" by (simp add: insn_at_0x2000_def)
  have r: "aop_valid (arm_register_operand ARM_REG_R3)"
    "is_register (arm_register_operand ARM_REG_R3)"
    "capstoneRegToGPRIndex (op_reg (arm_register_operand ARM_REG_R3)) = (3, True)"
    "capstoneRegToGPRIndex ARM_REG_R3 = (3, True)"
    by (simp_all add: arm_register_operand_def is_register_def capstoneRegToGPRIndex_def)
  have m: "aop_valid (arm_memory_operand ARM_REG_R1 x 0)"
    "is_expression (arm_memory_operand ARM_REG_R1 x 0)"
    "capstoneRegToGPRIndex (mem_base (arm_memory_operand ARM_REG_R1 x 0)) = (1, True)"
    "capstoneRegToGPRIndex (mem_index (arm_memory_operand ARM_REG_R1 ARM_REG_R2 0)) = (2, True)"
    for x
    by (simp_all add: arm_memory_operand_def is_expression_def capstoneRegToGPRIndex_def)
  have g: "op_valid ((memory_operand X86_REG_EBX X86_REG_INVALID 1 0 2)\<lparr>owner_prefix := {PREFIX_GS}\<rparr>)"
    "general_type ((memory_operand X86_REG_EBX X86_REG_INVALID 1 0 2)\<lparr>owner_prefix := {PREFIX_GS}\<rparr>)
      = TYPE_EXPRESSION"
    "PREFIX_GS \<in> owner_prefix ((memory_operand X86_REG_EBX X86_REG_INVALID 1 0 2)\<lparr>owner_prefix := {PREFIX_GS}\<rparr>)"
    by (simp_all add: memory_operand_def invalid_operand_def)
  have c: "op_valid (memory_operand X86_REG_ECX X86_REG_INVALID 1 8 2)"
    "general_type (memory_operand X86_REG_ECX X86_REG_INVALID 1 8 2) = TYPE_EXPRESSION"
    "owner_prefix (memory_operand X86_REG_ECX X86_REG_INVALID 1 8 2) = {}"
    "expression (memory_operand X86_REG_ECX X86_REG_INVALID 1 8 2)
      = \<lparr>base = X86_REG_ECX, index = X86_REG_INVALID, scale = 1, displacement = 8\<rparr>"
    by (simp_all add: memory_operand_def invalid_operand_def)
  note t1 = unresolved_register_reported [where operand = "arm_register_operand ARM_REG_R3"
      and insn = insn_at_0x2000 and i = 3 and ok = True and state = empty_State
      and cpuMode = ARM32 and bld = debug_build]
  note t2 = unresolved_register_reported [where
      operand = "arm_memory_operand ARM_REG_R1 ARM_REG_INVALID 0"
      and insn = insn_at_0x2000 and i = 1 and ok = True and state = empty_State
      and cpuMode = ARM32 and bld = debug_build]
  note t3 = unresolved_register_reported [where
      operand = "arm_memory_operand ARM_REG_R1 ARM_REG_R2 0"
      and insn = insn_at_0x2000 and i = 2 and ok = True and state = empty_State
      and cpuMode = ARM32 and bld = debug_build
      and fmt = example_formatter and st = empty_State
      and op = "(memory_operand X86_REG_EBX X86_REG_INVALID 1 0 2)\<lparr>owner_prefix := {PREFIX_GS}\<rparr>"]
  note t4 = unresolved_register_reported [where fmt = example_formatter and st = empty_State
      and op = "memory_operand X86_REG_ECX X86_REG_INVALID 1 8 2"]
  have a1: "ArchProcessor_get_effective_address debug_build ARM32 insn_at_0x2000
        (arm_register_operand ARM_REG_R3) empty_State = Inl (FailedToGetRegister 3)"
    using t1 i r e by simp
  have a2: "ArchProcessor_get_effective_address debug_build ARM32 insn_at_0x2000
        (arm_memory_operand ARM_REG_R1 ARM_REG_INVALID 0) empty_State = Inl (FailedToGetRegister 1)"
    using t2 i m e by simp
  have a3: "isl (ArchProcessor_get_effective_address debug_build ARM32 insn_at_0x2000
        (arm_memory_operand ARM_REG_R1 ARM_REG_R2 0) empty_State)"
    using t3 i m e by simp
  have x1: "\<not> snd (get_effective_address example_formatter
        ((memory_operand X86_REG_EBX X86_REG_INVALID 1 0 2)\<lparr>owner_prefix := {PREFIX_GS}\<rparr>)
        empty_State)"
    using t3 g e by simp
  have x2: "get_effective_address example_formatter
        (memory_operand X86_REG_ECX X86_REG_INVALID 1 8 2) empty_State = (8, True)"
    using t4 c e by simp
  from a1 a2 a3 x1 x2 r(2,4) e show ?thesis by simp
qed

end
